theory Spec2Isabelle
  imports Complex_Main
begin

section \<open>Numbers of the Python runtime\<close>

text \<open>
  The client computes with three kinds of numbers: unbounded integers (\<open>int\<close>),
  \<open>decimal.Decimal\<close> values and binary floating point (\<open>float\<close>). A finite Decimal
  and a finite float both denote a rational number, and that number is what the model
  keeps (type \<open>rat\<close>). What distinguishes the two arithmetics is the rounding applied to
  the exact result of every operation: Decimal rounds to the significant decimal digits
  of the active context (28 by default, ties to even), a float to 53 significant bits
  (ties to even). Both roundings are instances of \<open>round_sig\<close> below. Exponent limits
  (overflow, subnormal numbers) are outside the model; the special values of Decimal
  appear in the parser model only.
\<close>

definition round_half_even :: "rat \<Rightarrow> int" where
  "round_half_even x =
     (let f = \<lfloor>x\<rfloor>; d = x - of_int f
      in if d < 1 / 2 then f
         else if 1 / 2 < d then f + 1
         else if even f then f else f + 1)"

definition pow_int :: "int \<Rightarrow> int \<Rightarrow> rat" where
  "pow_int b e = (if 0 \<le> e then of_int b ^ nat e else 1 / of_int b ^ nat (- e))"

text \<open>The number of base-\<open>b\<close> digits of a positive integer (0 for the others).\<close>

function digits :: "int \<Rightarrow> int \<Rightarrow> nat" where
  "digits b n = (if n \<le> 0 \<or> b \<le> 1 then 0 else Suc (digits b (n div b)))"
  by pat_completeness auto
termination
proof (relation "measure (\<lambda>(b, n). nat n)")
  show "wf (measure (\<lambda>(b, n). nat n))"
    by simp
next
  fix b n :: int
  assume "\<not> (n \<le> 0 \<or> b \<le> 1)"
  then have "0 < n" and "1 < b"
    by simp_all
  then have "n div b < n"
    by (simp add: int_div_less_self)
  moreover have "0 \<le> n div b"
    using \<open>0 < n\<close> \<open>1 < b\<close> by (simp add: pos_imp_zdiv_nonneg_iff)
  ultimately show "((b, n div b), (b, n)) \<in> measure (\<lambda>(b, n). nat n)"
    using \<open>0 < n\<close> by simp
qed

declare digits.simps [simp del]

text \<open>\<open>ilog b x\<close> is the exponent of the leading base-\<open>b\<close> digit of a positive \<open>x\<close>.\<close>

definition ilog :: "int \<Rightarrow> rat \<Rightarrow> int" where
  "ilog b x =
     (if 1 \<le> x then int (digits b \<lfloor>x\<rfloor>) - 1
      else - int (digits b (\<lceil>1 / x\<rceil> - 1)))"

text \<open>Rounding to \<open>p\<close> significant base-\<open>b\<close> digits, ties to even.\<close>

definition round_sig :: "int \<Rightarrow> int \<Rightarrow> rat \<Rightarrow> rat" where
  "round_sig b p x =
     (if x = 0 then 0
      else let e = ilog b \<bar>x\<bar> - (p - 1)
           in of_int (round_half_even (x / pow_int b e)) * pow_int b e)"

text \<open>The default decimal context: \<open>prec = 28\<close>, \<open>ROUND_HALF_EVEN\<close>.\<close>

definition DefaultContext :: "rat \<Rightarrow> rat" where
  "DefaultContext = round_sig 10 28"

text \<open>An arithmetic that does not round, for comparison.\<close>

definition ExactContext :: "rat \<Rightarrow> rat" where
  "ExactContext x = x"

text \<open>Python's \<open>float\<close>: IEEE binary64, round to nearest, ties to even.\<close>

definition float_round :: "rat \<Rightarrow> rat" where
  "float_round = round_sig 2 53"

section \<open>Profit and loss of a position (\<open>das_trader/utils.py\<close>)\<close>



section \<open>Exceptions\<close>

text \<open>
  A raised exception is a value: its class and its message (\<open>str(e)\<close>). A function
  that can raise returns \<open>exn + 'a\<close>, with \<open>Inl\<close> for the exception.
\<close>

datatype exn =
    ValueError string
  | TypeError string
  | AttributeError string
  | ZeroDivisionError string
  | KeyError string
  | IndexError string
  | InvalidOperation string
  | DASInvalidSymbolError string
  | DASMarketDataError string
  | OtherError string

definition quoted :: "string \<Rightarrow> string" where
  "quoted s = [CHR 0x27] @ s @ [CHR 0x27]"

fun str_exn :: "exn \<Rightarrow> string" where
  "str_exn (ValueError m) = m"
| "str_exn (TypeError m) = m"
| "str_exn (AttributeError m) = m"
| "str_exn (ZeroDivisionError m) = m"
| "str_exn (KeyError m) = m"
| "str_exn (IndexError m) = m"
| "str_exn (InvalidOperation m) = m"
| "str_exn (DASInvalidSymbolError m) = m"
| "str_exn (DASMarketDataError m) = m"
| "str_exn (OtherError m) = m"

section \<open>Python values and dictionaries\<close>

text \<open>
  The text of the protocol is ASCII; a \<open>string\<close> of the model is a Python \<open>str\<close> of
  ASCII characters. \<open>str.upper\<close> changes the letters a to z only.
\<close>

definition ord :: "char \<Rightarrow> nat" where
  "ord c = of_char c"

definition upper_char :: "char \<Rightarrow> char" where
  "upper_char c = (if 97 \<le> ord c \<and> ord c \<le> 122 then char_of (ord c - 32) else c)"

definition upper :: "string \<Rightarrow> string" where
  "upper s = map upper_char s"

text \<open>A \<open>datetime\<close>: a date and a time of the day.\<close>

datatype datetime = Datetime (year: nat) (month: nat) (day: nat) (hour: nat) (minute: nat) (second: nat)

text \<open>
  A \<open>Decimal\<close> is a finite number, an infinity (with its sign) or a NaN (quiet or
  signalling; the sign and the payload of a NaN are not kept).
\<close>

datatype decimal = Finite rat | Infinity (negative: bool) | NaN (signalling: bool)

text \<open>
  The values that the dictionaries of the parser hold: \<open>None\<close>, strings, integers,
  Decimals, booleans, timestamps and lists of tokens.
\<close>

datatype pyval =
    PNone
  | PStr string
  | PInt int
  | PDec decimal
  | PBool bool
  | PTime datetime
  | PList "string list"

text \<open>
  A dictionary keeps its keys in the order of insertion. \<open>d.get(k)\<close> is \<open>None\<close> for a
  missing key, \<open>d.get(k, v)\<close> is \<open>v\<close>; \<open>d[k] = v\<close> replaces the value of a key in place
  or adds the key at the end.
\<close>

type_synonym pydict = "(string \<times> pyval) list"

definition dict_get :: "pydict \<Rightarrow> string \<Rightarrow> pyval" where
  "dict_get d k = (case map_of d k of None \<Rightarrow> PNone | Some v \<Rightarrow> v)"

definition dict_get_default :: "pydict \<Rightarrow> string \<Rightarrow> pyval \<Rightarrow> pyval" where
  "dict_get_default d k v = (case map_of d k of None \<Rightarrow> v | Some w \<Rightarrow> w)"

fun dict_set :: "pydict \<Rightarrow> string \<Rightarrow> pyval \<Rightarrow> pydict" where
  "dict_set [] k v = [(k, v)]"
| "dict_set ((k', w) # d) k v = (if k' = k then (k, v) # d else (k', w) # dict_set d k v)"

text \<open>Truth value of a Python value (\<open>if not x\<close>).\<close>

fun truthy :: "pyval \<Rightarrow> bool" where
  "truthy PNone = False"
| "truthy (PStr s) = (s \<noteq> [])"
| "truthy (PInt i) = (i \<noteq> 0)"
| "truthy (PDec d) = (d \<noteq> Finite 0)"
| "truthy (PBool b) = b"
| "truthy (PTime t) = True"
| "truthy (PList xs) = (xs \<noteq> [])"

text \<open>\<open>x.upper()\<close>: only a \<open>str\<close> has the method.\<close>

fun py_upper :: "pyval \<Rightarrow> exn + string" where
  "py_upper (PStr s) = Inr (upper s)"
| "py_upper v = Inl (AttributeError ''object has no attribute upper'')"

text \<open>
  \<open>x > 0\<close>: integers, booleans and Decimals compare with the integer 0; a NaN raises
  \<open>InvalidOperation\<close> in an ordering comparison, any other value \<open>TypeError\<close>.
\<close>

fun py_gt_zero :: "pyval \<Rightarrow> exn + bool" where
  "py_gt_zero (PInt i) = Inr (0 < i)"
| "py_gt_zero (PBool b) = Inr b"
| "py_gt_zero (PDec (Finite r)) = Inr (0 < r)"
| "py_gt_zero (PDec (Infinity neg)) = Inr (\<not> neg)"
| "py_gt_zero (PDec (NaN sig)) = Inl (InvalidOperation ''comparison involving NaN'')"
| "py_gt_zero v = Inl (TypeError ''> not supported between these instances'')"

text \<open>
  \<open>x != y\<close>. Integers, booleans and Decimals compare by their number; a signalling NaN on
  one side of such a comparison raises \<open>InvalidOperation\<close>, a quiet NaN is different from
  every number, itself included. All other values are equal only to themselves.
\<close>

fun numeric :: "pyval \<Rightarrow> bool" where
  "numeric (PInt i) = True"
| "numeric (PBool b) = True"
| "numeric (PDec d) = True"
| "numeric v = False"

fun number_of :: "pyval \<Rightarrow> rat option" where
  "number_of (PInt i) = Some (of_int i)"
| "number_of (PBool b) = Some (if b then 1 else 0)"
| "number_of (PDec (Finite r)) = Some r"
| "number_of v = None"

definition py_ne :: "pyval \<Rightarrow> pyval \<Rightarrow> exn + bool" where
  "py_ne x y =
     (if numeric x \<and> numeric y then
        (if x = PDec (NaN True) \<or> y = PDec (NaN True)
         then Inl (InvalidOperation ''sNaN'')
         else if x = PDec (NaN False) \<or> y = PDec (NaN False) then Inr True
         else (case (number_of x, number_of y) of
                 (Some a, Some b) \<Rightarrow> Inr (a \<noteq> b)
               | _ \<Rightarrow> Inr (x \<noteq> y)))
      else Inr (x \<noteq> y))"

section \<open>Strings\<close>

text \<open>
  The string methods that the parser uses. White space is what \<open>str.isspace\<close> accepts
  among the ASCII characters: tab, line feed, vertical tab, form feed, carriage return,
  the four separators 28 to 31 and the space.
\<close>

definition is_space :: "char \<Rightarrow> bool" where
  "is_space c = (ord c \<in> {9, 10, 11, 12, 13, 28, 29, 30, 31, 32})"

definition is_digit :: "char \<Rightarrow> bool" where
  "is_digit c = (48 \<le> ord c \<and> ord c \<le> 57)"

definition digit_value :: "char \<Rightarrow> nat" where
  "digit_value c = ord c - 48"

definition lower_char :: "char \<Rightarrow> char" where
  "lower_char c = (if 65 \<le> ord c \<and> ord c \<le> 90 then char_of (ord c + 32) else c)"

definition strip :: "string \<Rightarrow> string" where
  "strip s = rev (dropWhile is_space (rev (dropWhile is_space s)))"

text \<open>\<open>s.split()\<close>: the maximal runs of characters that are not white space.\<close>

fun split_from :: "string \<Rightarrow> string \<Rightarrow> string list" where
  "split_from word [] = (if word = [] then [] else [rev word])"
| "split_from word (c # cs) =
     (if is_space c then (if word = [] then split_from [] cs else rev word # split_from [] cs)
      else split_from (c # word) cs)"

definition split :: "string \<Rightarrow> string list" where
  "split s = split_from [] s"

definition startswith :: "string \<Rightarrow> string \<Rightarrow> bool" where
  "startswith s p = (take (length p) s = p)"

text \<open>\<open>" ".join(xs)\<close>.\<close>

fun join :: "string list \<Rightarrow> string" where
  "join [] = []"
| "join [x] = x"
| "join (x # y # xs) = x @ '' '' @ join (y # xs)"

text \<open>\<open>xs[i]\<close> raises \<open>IndexError\<close> out of range (the parser uses no negative index).\<close>

definition py_index :: "'a list \<Rightarrow> nat \<Rightarrow> exn + 'a" where
  "py_index xs i = (if i < length xs then Inr (xs ! i) else Inl (IndexError ''list index out of range''))"

text \<open>The decimal digits of a natural number (\<open>str(n)\<close>).\<close>

function str_nat :: "nat \<Rightarrow> string" where
  "str_nat n = (if n < 10 then [char_of (48 + n)] else str_nat (n div 10) @ [char_of (48 + n mod 10)])"
  by pat_completeness auto
termination
  by (relation "measure id") auto

declare str_nat.simps [simp del]

text \<open>
  \<open>repr(s)\<close> of an ASCII string: in single quotes, or in double quotes when the string has
  a single quote and no double quote; the quote in use and the backslash are escaped,
  tab, line feed and carriage return are written \<open>\t\<close>, \<open>\n\<close>, \<open>\r\<close>, every other control
  character as \<open>\xhh\<close>.
\<close>

definition hex_digit :: "nat \<Rightarrow> char" where
  "hex_digit n = (if n < 10 then char_of (48 + n) else char_of (87 + n))"

definition repr_char :: "char \<Rightarrow> char \<Rightarrow> string" where
  "repr_char q c =
     (if c = q \<or> ord c = 92 then [char_of (92 :: nat), c]
      else if ord c = 9 then [char_of (92 :: nat), CHR ''t'']
      else if ord c = 10 then [char_of (92 :: nat), CHR ''n'']
      else if ord c = 13 then [char_of (92 :: nat), CHR ''r'']
      else if ord c < 32 \<or> ord c = 127
        then [char_of (92 :: nat), CHR ''x'', hex_digit (ord c div 16), hex_digit (ord c mod 16)]
      else [c])"

definition py_repr :: "string \<Rightarrow> string" where
  "py_repr s =
     (let q = (if CHR 0x27 \<in> set s \<and> CHR 0x22 \<notin> set s then CHR 0x22 else CHR 0x27)
      in [q] @ concat (map (repr_char q) s) @ [q])"

section \<open>Built-in conversions\<close>

text \<open>
  \<open>int(s)\<close> for a string: white space around the literal is dropped; the literal is an
  optional sign and decimal digits, where single underscores may stand between digits.
  Anything else raises \<open>ValueError\<close>, and so does a literal of more than 4300 digits.
\<close>

fun digits_ok :: "string \<Rightarrow> bool" where
  "digits_ok [] = False"
| "digits_ok [c] = is_digit c"
| "digits_ok (c # d # cs) =
     (is_digit c \<and> (if d = CHR ''_'' then digits_ok cs else digits_ok (d # cs)))"

definition int_of_digits :: "string \<Rightarrow> int" where
  "int_of_digits s = foldl (\<lambda>n c. 10 * n + int (digit_value c)) 0 (filter is_digit s)"

definition py_int :: "string \<Rightarrow> exn + int" where
  "py_int s =
     (let t = strip s;
          neg = (t \<noteq> [] \<and> hd t = CHR ''-'');
          body = (if t \<noteq> [] \<and> (hd t = CHR ''-'' \<or> hd t = CHR ''+'') then tl t else t);
          n = length (filter is_digit body)
      in if \<not> digits_ok body
         then Inl (ValueError (''invalid literal for int() with base 10: '' @ py_repr s))
         else if 4300 < n
         then Inl (ValueError (''Exceeds the limit (4300 digits) for integer string conversion: value has '' @
                 str_nat n @ '' digits; use sys.set_int_max_str_digits() to increase the limit''))
         else Inr (if neg then - int_of_digits body else int_of_digits body))"

text \<open>
  \<open>Decimal(s)\<close> for a string; \<open>None\<close> stands for \<open>InvalidOperation\<close>. White space around
  the literal and all underscores are dropped. After an optional sign come \<open>Inf\<close> or
  \<open>Infinity\<close>, \<open>NaN\<close> or \<open>sNaN\<close> with optional digits, in any case of the letters, or a
  number: digits with at most one point and at least one digit, and an optional exponent
  (\<open>e\<close> or \<open>E\<close>, an optional sign, digits). The conversion is exact.
\<close>

definition all_digits :: "string \<Rightarrow> bool" where
  "all_digits s = list_all is_digit s"

definition signed_digits :: "string \<Rightarrow> int option" where
  "signed_digits s =
     (let neg = (s \<noteq> [] \<and> hd s = CHR ''-'');
          body = (if s \<noteq> [] \<and> (hd s = CHR ''-'' \<or> hd s = CHR ''+'') then tl s else s)
      in if body \<noteq> [] \<and> all_digits body
         then Some (if neg then - int_of_digits body else int_of_digits body)
         else None)"

definition finite_decimal :: "string \<Rightarrow> rat option" where
  "finite_decimal s =
     (let mantissa = takeWhile (\<lambda>c. c \<noteq> CHR ''e'') s;
          after = dropWhile (\<lambda>c. c \<noteq> CHR ''e'') s;
          whole = takeWhile (\<lambda>c. c \<noteq> CHR ''.'') mantissa;
          point = dropWhile (\<lambda>c. c \<noteq> CHR ''.'') mantissa;
          fraction = (if point = [] then [] else tl point);
          exponent = (if after = [] then Some 0 else signed_digits (tl after))
      in if all_digits whole \<and> all_digits fraction \<and> whole @ fraction \<noteq> []
         then (case exponent of
                 None \<Rightarrow> None
               | Some e \<Rightarrow>
                   Some (of_int (int_of_digits (whole @ fraction)) *
                         pow_int 10 (e - int (length fraction))))
         else None)"

definition py_Decimal :: "string \<Rightarrow> decimal option" where
  "py_Decimal s =
     (let t = map lower_char (filter (\<lambda>c. c \<noteq> CHR ''_'') (strip s));
          neg = (t \<noteq> [] \<and> hd t = CHR ''-'');
          body = (if t \<noteq> [] \<and> (hd t = CHR ''-'' \<or> hd t = CHR ''+'') then tl t else t)
      in if body = ''inf'' \<or> body = ''infinity'' then Some (Infinity neg)
         else if startswith body ''nan'' \<and> all_digits (drop 3 body) then Some (NaN False)
         else if startswith body ''snan'' \<and> all_digits (drop 4 body) then Some (NaN True)
         else (case finite_decimal body of
                 None \<Rightarrow> None
               | Some r \<Rightarrow> Some (Finite (if neg then - r else r))))"

text \<open>
  Multiplication of an \<open>int\<close> and a \<open>Decimal\<close> in the default context. A signalling NaN
  raises \<open>InvalidOperation\<close>; the product of a finite Decimal is rounded.
\<close>

definition invalid_operation :: exn where
  "invalid_operation = InvalidOperation (''[<class '' @ quoted ''decimal.InvalidOperation'' @ ''>]'')"

fun int_times_decimal :: "int \<Rightarrow> decimal \<Rightarrow> exn + decimal" where
  "int_times_decimal q (Finite r) = Inr (Finite (DefaultContext (of_int q * r)))"
| "int_times_decimal q (Infinity neg) =
     (if q = 0 then Inl invalid_operation else Inr (Infinity (neg \<noteq> (q < 0))))"
| "int_times_decimal q (NaN sig) = (if sig then Inl invalid_operation else Inr (NaN False))"

section \<open>Timestamps (\<open>parse_timestamp\<close>)\<close>

text \<open>
  \<open>datetime.strptime\<close> turns the format into a regular expression, one group of
  alternatives for each directive, and takes the first match that the alternatives give
  in their order; a match that does not end at the end of the string, an impossible date
  and a second above 59 raise \<open>ValueError\<close>. The directives of the four formats of
  \<open>parse_timestamp\<close> are modelled; white space in the format stands for one or more
  white-space characters.
\<close>

datatype directive = DY | Dm | Dd | DH | DM | DS | DSpace | DLit char | DBad

definition directive_of :: "char \<Rightarrow> directive" where
  "directive_of c =
     (if c = CHR ''Y'' then DY else if c = CHR ''m'' then Dm else if c = CHR ''d'' then Dd
      else if c = CHR ''H'' then DH else if c = CHR ''M'' then DM
      else if c = CHR ''S'' then DS else DBad)"

fun compile_format :: "string \<Rightarrow> directive list" where
  "compile_format [] = []"
| "compile_format [c] = [if is_space c then DSpace else DLit c]"
| "compile_format (c # d # cs) =
     (if c = CHR ''%'' then directive_of d # compile_format cs
      else if is_space c then (if is_space d then compile_format (d # cs)
                               else DSpace # compile_format (d # cs))
      else DLit c # compile_format (d # cs))"

text \<open>Two digits, or one digit, each within a range of characters.\<close>

definition two_digits :: "nat \<Rightarrow> nat \<Rightarrow> nat \<Rightarrow> nat \<Rightarrow> string \<Rightarrow> (nat \<times> string) list" where
  "two_digits a b c d s =
     (case s of
        x # y # r \<Rightarrow>
          if 48 + a \<le> ord x \<and> ord x \<le> 48 + b \<and> 48 + c \<le> ord y \<and> ord y \<le> 48 + d
          then [(10 * digit_value x + digit_value y, r)] else []
      | _ \<Rightarrow> [])"

definition one_digit :: "nat \<Rightarrow> nat \<Rightarrow> string \<Rightarrow> (nat \<times> string) list" where
  "one_digit a b s =
     (case s of
        x # r \<Rightarrow> if 48 + a \<le> ord x \<and> ord x \<le> 48 + b then [(digit_value x, r)] else []
      | _ \<Rightarrow> [])"

text \<open>The ways in which a directive matches a prefix of the string, in their order.\<close>

fun alternatives :: "directive \<Rightarrow> string \<Rightarrow> (nat \<times> string) list" where
  "alternatives DY s =
     (if 4 \<le> length s \<and> all_digits (take 4 s)
      then [(nat (int_of_digits (take 4 s)), drop 4 s)] else [])"
| "alternatives Dm s = two_digits 1 1 0 2 s @ two_digits 0 0 1 9 s @ one_digit 1 9 s"
| "alternatives Dd s =
     two_digits 3 3 0 1 s @ two_digits 1 2 0 9 s @ two_digits 0 0 1 9 s @ one_digit 1 9 s @
     (case s of x # r \<Rightarrow> if x = CHR '' '' then one_digit 1 9 r else [] | _ \<Rightarrow> [])"
| "alternatives DH s = two_digits 2 2 0 3 s @ two_digits 0 1 0 9 s @ one_digit 0 9 s"
| "alternatives DM s = two_digits 0 5 0 9 s @ one_digit 0 9 s"
| "alternatives DS s = two_digits 6 6 0 1 s @ two_digits 0 5 0 9 s @ one_digit 0 9 s"
| "alternatives DSpace s =
     map (\<lambda>k. (0, drop k s)) (rev [1 ..< Suc (length (takeWhile is_space s))])"
| "alternatives (DLit c) s = (case s of x # r \<Rightarrow> if x = c then [(0, r)] else [] | _ \<Rightarrow> [])"
| "alternatives DBad s = []"

fun match_all :: "directive list \<Rightarrow> string \<Rightarrow> ((directive \<times> nat) list \<times> string) list" where
  "match_all [] s = [([], s)]"
| "match_all (d # ds) s =
     concat (map (\<lambda>(v, r). map (\<lambda>(vs, r'). ((d, v) # vs, r')) (match_all ds r))
                 (alternatives d s))"

definition leap_year :: "nat \<Rightarrow> bool" where
  "leap_year y = (y mod 4 = 0 \<and> (y mod 100 \<noteq> 0 \<or> y mod 400 = 0))"

definition days_in_month :: "nat \<Rightarrow> nat \<Rightarrow> nat" where
  "days_in_month y m =
     (if m = 2 then (if leap_year y then 29 else 28)
      else if m \<in> {4, 6, 9, 11} then 30 else 31)"

definition found :: "(directive \<times> nat) list \<Rightarrow> directive \<Rightarrow> nat \<Rightarrow> nat" where
  "found vs d dflt = (case map_of vs d of None \<Rightarrow> dflt | Some v \<Rightarrow> v)"

definition strptime :: "string \<Rightarrow> string \<Rightarrow> exn + datetime" where
  "strptime s fmt =
     (case match_all (compile_format fmt) s of
        [] \<Rightarrow> Inl (ValueError (''time data '' @ py_repr s @ '' does not match format '' @
                      py_repr fmt))
      | (vs, rest) # others \<Rightarrow>
          if rest \<noteq> [] then Inl (ValueError (''unconverted data remains: '' @ rest))
          else
            let y = found vs DY 1900; m = found vs Dm 1; d = found vs Dd 1
            in if y < 1 then Inl (ValueError (''year '' @ str_nat y @ '' is out of range''))
               else if days_in_month y m < d
                 then Inl (ValueError ''day is out of range for month'')
               else if 59 < found vs DS 0
                 then Inl (ValueError ''second must be in 0..59'')
               else Inr (Datetime y m d (found vs DH 0) (found vs DM 0) (found vs DS 0)))"

text \<open>
  \<open>parse_timestamp\<close> tries its four formats in turn and skips a format that raises
  \<open>ValueError\<close>; any other exception would leave the function.
\<close>

definition formats :: "string list" where
  "formats = [''%Y%m%d %H:%M:%S'', ''%Y-%m-%d %H:%M:%S'', ''%m/%d/%Y %H:%M:%S'', ''%Y%m%d%H%M%S'']"

fun try_formats :: "string \<Rightarrow> string list \<Rightarrow> exn + datetime option" where
  "try_formats s [] = Inr None"
| "try_formats s (fmt # fmts) =
     (case strptime s fmt of
        Inr t \<Rightarrow> Inr (Some t)
      | Inl (ValueError m) \<Rightarrow> try_formats s fmts
      | Inl e \<Rightarrow> Inl e)"

definition parse_timestamp :: "string \<Rightarrow> exn + datetime option" where
  "parse_timestamp timestamp_str = try_formats timestamp_str formats"

section \<open>The message parser (\<open>das_trader/utils.py\<close>)\<close>

text \<open>
  \<open>parse_decimal\<close>: \<open>None\<close> for \<open>None\<close>, and \<open>None\<close> when \<open>Decimal\<close> raises.
\<close>

definition parse_decimal :: "string option \<Rightarrow> decimal option" where
  "parse_decimal v = (case v of None \<Rightarrow> None | Some s \<Rightarrow> py_Decimal s)"

definition optional_decimal :: "decimal option \<Rightarrow> pyval" where
  "optional_decimal v = (case v of None \<Rightarrow> PNone | Some d \<Rightarrow> PDec d)"

definition optional_time :: "datetime option \<Rightarrow> pyval" where
  "optional_time v = (case v of None \<Rightarrow> PNone | Some t \<Rightarrow> PTime t)"

text \<open>
  Every extractor builds one dictionary literal whose entries follow a few patterns on
  the token list \<open>parts\<close>. A \<open>field\<close> names the pattern of one entry:
  \<^item> \<open>FStr i\<close>: \<^verbatim>\<open>parts[i] if len(parts) > i else None\<close>;
  \<^item> \<open>FInt i\<close>: \<^verbatim>\<open>int(parts[i]) if len(parts) > i else 0\<close>;
  \<^item> \<open>FDec i\<close>: \<^verbatim>\<open>parse_decimal(parts[i]) if len(parts) > i else None\<close>;
  \<^item> \<open>FDec0 i\<close>: \<^verbatim>\<open>parse_decimal(parts[i]) if len(parts) > i else Decimal("0")\<close>;
  \<^item> \<open>FIs i w\<close>: \<^verbatim>\<open>parts[i].upper() == w if len(parts) > i else False\<close>;
  \<^item> \<open>FTime i\<close>: \<^verbatim>\<open>parse_timestamp(parts[i]) if len(parts) > i else None\<close>;
  \<^item> \<open>FTime2 i\<close>: \<^verbatim>\<open>parse_timestamp(" ".join(parts[i:i+2])) if len(parts) > i+1 else None\<close>;
  \<^item> \<open>FRest i\<close>: \<^verbatim>\<open>" ".join(parts[i:]) if len(parts) > i else None\<close>;
  \<^item> \<open>FProduct i j\<close>: \<^verbatim>\<open>qty * current_price if qty and current_price else Decimal("0")\<close>,
    for \<open>qty\<close> the value of \<open>FInt i\<close> and \<open>current_price\<close> the value of \<open>FDec0 j\<close>.
  \<open>field_value\<close> evaluates an entry; \<open>Inl\<close> is the exception that the evaluation raises.
\<close>

datatype field =
    FStr nat
  | FInt nat
  | FDec nat
  | FDec0 nat
  | FIs nat string
  | FTime nat
  | FTime2 nat
  | FRest nat
  | FProduct nat nat

definition with_token :: "string list \<Rightarrow> nat \<Rightarrow> (string \<Rightarrow> exn + pyval) \<Rightarrow> exn + pyval" where
  "with_token parts i f = (case py_index parts i of Inl e \<Rightarrow> Inl e | Inr t \<Rightarrow> f t)"

definition market_value :: "pyval \<Rightarrow> pyval \<Rightarrow> exn + pyval" where
  "market_value qty cur =
     (if truthy qty \<and> truthy cur then
        (case (qty, cur) of
           (PInt q, PDec d) \<Rightarrow>
             (case int_times_decimal q d of Inl e \<Rightarrow> Inl e | Inr p \<Rightarrow> Inr (PDec p))
         | _ \<Rightarrow> Inl (TypeError ''unsupported operand type(s) for *''))
      else Inr (PDec (Finite 0)))"

definition int_value :: "string list \<Rightarrow> nat \<Rightarrow> exn + pyval" where
  "int_value parts i =
     (if i < length parts
      then with_token parts i
             (\<lambda>t. case py_int t of Inl e \<Rightarrow> Inl e | Inr n \<Rightarrow> Inr (PInt n))
      else Inr (PInt 0))"

definition decimal_value :: "string list \<Rightarrow> nat \<Rightarrow> pyval \<Rightarrow> exn + pyval" where
  "decimal_value parts i dflt =
     (if i < length parts
      then with_token parts i (\<lambda>t. Inr (optional_decimal (parse_decimal (Some t))))
      else Inr dflt)"

fun field_value :: "string list \<Rightarrow> field \<Rightarrow> exn + pyval" where
  "field_value parts (FStr i) =
     (if i < length parts then with_token parts i (\<lambda>t. Inr (PStr t)) else Inr PNone)"
| "field_value parts (FInt i) = int_value parts i"
| "field_value parts (FDec i) = decimal_value parts i PNone"
| "field_value parts (FDec0 i) = decimal_value parts i (PDec (Finite 0))"
| "field_value parts (FIs i w) =
     (if i < length parts then with_token parts i (\<lambda>t. Inr (PBool (upper t = w)))
      else Inr (PBool False))"
| "field_value parts (FTime i) =
     (if i < length parts
      then with_token parts i
             (\<lambda>t. case parse_timestamp t of Inl e \<Rightarrow> Inl e | Inr v \<Rightarrow> Inr (optional_time v))
      else Inr PNone)"
| "field_value parts (FTime2 i) =
     (if i + 1 < length parts
      then (case parse_timestamp (join (take 2 (drop i parts))) of
              Inl e \<Rightarrow> Inl e | Inr v \<Rightarrow> Inr (optional_time v))
      else Inr PNone)"
| "field_value parts (FRest i) =
     (if i < length parts then Inr (PStr (join (drop i parts))) else Inr PNone)"
| "field_value parts (FProduct i j) =
     (case int_value parts i of
        Inl e \<Rightarrow> Inl e
      | Inr qty \<Rightarrow>
          (case decimal_value parts j (PDec (Finite 0)) of
             Inl e \<Rightarrow> Inl e
           | Inr cur \<Rightarrow> market_value qty cur))"

text \<open>
  The entries of a dictionary literal are evaluated from the first to the last; the first
  exception ends the evaluation.
\<close>

fun dict_entries :: "string list \<Rightarrow> (string \<times> field) list \<Rightarrow> exn + pydict" where
  "dict_entries parts [] = Inr []"
| "dict_entries parts ((k, f) # fs) =
     (case field_value parts f of
        Inl e \<Rightarrow> Inl e
      | Inr v \<Rightarrow> (case dict_entries parts fs of Inl e \<Rightarrow> Inl e | Inr d \<Rightarrow> Inr ((k, v) # d)))"

text \<open>
  The shape that all extractors share: the \<open>try\<close> returns the dictionary with its
  \<open>type\<close> and its entries, the \<open>except Exception\<close> returns the type, the message of the
  exception and the tokens.
\<close>

definition error_record :: "string \<Rightarrow> string list \<Rightarrow> exn \<Rightarrow> pydict" where
  "error_record t parts e =
     [(''type'', PStr t), (''error'', PStr (str_exn e)), (''raw'', PList parts)]"

definition extractor :: "string \<Rightarrow> (string \<times> field) list \<Rightarrow> string list \<Rightarrow> exn + pydict" where
  "extractor t fs parts =
     (case dict_entries parts fs of
        Inl e \<Rightarrow> Inr (error_record t parts e)
      | Inr d \<Rightarrow> Inr ((''type'', PStr t) # d))"

text \<open>The dictionary literals of the extractors, entry by entry.\<close>

definition order_fields :: "(string \<times> field) list" where
  "order_fields =
     [(''order_id'', FStr 0), (''symbol'', FStr 1), (''side'', FStr 2),
      (''quantity'', FInt 3), (''price'', FDec 4), (''order_type'', FStr 5),
      (''status'', FStr 6), (''filled_qty'', FInt 7), (''avg_price'', FDec 8),
      (''remaining_qty'', FInt 9), (''timestamp'', FTime2 10)]"

definition order_action_fields :: "(string \<times> field) list" where
  "order_action_fields =
     [(''order_id'', FStr 0), (''action'', FStr 1), (''status'', FStr 2),
      (''details'', FRest 3)]"

text \<open>
  \<open>parse_position_message\<close> computes \<open>qty\<close>, \<open>avg_cost\<close> and \<open>current_price\<close> before it
  builds the dictionary. The only entry in front of them, \<open>symbol\<close>, cannot raise, so
  the order of the dictionary gives the same result.
\<close>

definition position_fields :: "(string \<times> field) list" where
  "position_fields =
     [(''symbol'', FStr 0), (''quantity'', FInt 1), (''avg_cost'', FDec0 2),
      (''current_price'', FDec0 3), (''pnl'', FDec 4), (''pnl_percent'', FDec 5),
      (''market_value'', FProduct 1 3)]"

definition quote_fields :: "(string \<times> field) list" where
  "quote_fields =
     [(''symbol'', FStr 0), (''bid'', FDec 1), (''ask'', FDec 2), (''last'', FDec 3),
      (''volume'', FInt 4), (''bid_size'', FInt 5), (''ask_size'', FInt 6),
      (''timestamp'', FTime2 7)]"

definition level2_fields :: "(string \<times> field) list" where
  "level2_fields =
     [(''symbol'', FStr 0), (''side'', FStr 1), (''price'', FDec 2), (''size'', FInt 3),
      (''mmid'', FStr 4), (''timestamp'', FTime2 5)]"

definition time_sales_fields :: "(string \<times> field) list" where
  "time_sales_fields =
     [(''symbol'', FStr 0), (''price'', FDec 1), (''size'', FInt 2), (''timestamp'', FTime 3),
      (''condition'', FStr 4)]"

definition chart_fields :: "(string \<times> field) list" where
  "chart_fields =
     [(''symbol'', FStr 0), (''chart_type'', FStr 1), (''open'', FDec 2), (''high'', FDec 3),
      (''low'', FDec 4), (''close'', FDec 5), (''volume'', FInt 6), (''timestamp'', FTime 7)]"

definition buying_power_fields :: "(string \<times> field) list" where
  "buying_power_fields =
     [(''buying_power'', FDec 0), (''day_trading_bp'', FDec 1), (''overnight_bp'', FDec 2),
      (''cash'', FDec 3)]"

definition short_info_fields :: "(string \<times> field) list" where
  "short_info_fields =
     [(''symbol'', FStr 0), (''shortable'', FIs 1 ''YES''), (''rate'', FDec 2),
      (''available_shares'', FInt 3)]"

definition locate_info_fields :: "(string \<times> field) list" where
  "locate_info_fields =
     [(''symbol'', FStr 0), (''located'', FIs 1 ''YES''), (''quantity'', FInt 2),
      (''rate'', FDec 3), (''locate_id'', FStr 4)]"

definition locate_return_fields :: "(string \<times> field) list" where
  "locate_return_fields =
     [(''symbol'', FStr 0), (''quantity'', FInt 1), (''rate'', FDec 2),
      (''available'', FIs 3 ''YES''), (''route'', FStr 4)]"

definition locate_order_fields :: "(string \<times> field) list" where
  "locate_order_fields =
     [(''locate_id'', FStr 0), (''symbol'', FStr 1), (''status'', FStr 2),
      (''details'', FRest 3), (''located'', FIs 2 ''ACCEPTED'')]"

definition locate_avail_fields :: "(string \<times> field) list" where
  "locate_avail_fields =
     [(''account'', FStr 0), (''symbol'', FStr 1), (''available_shares'', FInt 2),
      (''rate'', FDec 3)]"

definition limit_down_up_fields :: "(string \<times> field) list" where
  "limit_down_up_fields =
     [(''symbol'', FStr 0), (''limit_down'', FDec 1), (''limit_up'', FDec 2)]"

definition watch_trade_fields :: "(string \<times> field) list" where
  "watch_trade_fields =
     [(''trade_id'', FStr 0), (''symbol'', FStr 1), (''side'', FStr 2), (''quantity'', FInt 3),
      (''price'', FDec 4), (''route'', FStr 5), (''timestamp'', FTime 6),
      (''order_id'', FStr 7)]"

definition parse_order_message :: "string list \<Rightarrow> exn + pydict" where
  "parse_order_message parts = extractor ''ORDER'' order_fields parts"

definition parse_order_action_message :: "string list \<Rightarrow> exn + pydict" where
  "parse_order_action_message parts = extractor ''ORDER_ACTION'' order_action_fields parts"

definition parse_position_message :: "string list \<Rightarrow> exn + pydict" where
  "parse_position_message parts = extractor ''POSITION'' position_fields parts"

definition parse_quote_message :: "string list \<Rightarrow> exn + pydict" where
  "parse_quote_message parts = extractor ''QUOTE'' quote_fields parts"

definition parse_level2_message :: "string list \<Rightarrow> exn + pydict" where
  "parse_level2_message parts = extractor ''LEVEL2'' level2_fields parts"

definition parse_time_sales_message :: "string list \<Rightarrow> exn + pydict" where
  "parse_time_sales_message parts = extractor ''TIME_SALES'' time_sales_fields parts"

definition parse_chart_message :: "string list \<Rightarrow> exn + pydict" where
  "parse_chart_message parts = extractor ''CHART'' chart_fields parts"

definition parse_buying_power_message :: "string list \<Rightarrow> exn + pydict" where
  "parse_buying_power_message parts = extractor ''BUYING_POWER'' buying_power_fields parts"

definition parse_short_info_message :: "string list \<Rightarrow> exn + pydict" where
  "parse_short_info_message parts = extractor ''SHORT_INFO'' short_info_fields parts"

definition parse_locate_info_message :: "string list \<Rightarrow> exn + pydict" where
  "parse_locate_info_message parts = extractor ''LOCATE_INFO'' locate_info_fields parts"

definition parse_locate_return_message :: "string list \<Rightarrow> exn + pydict" where
  "parse_locate_return_message parts = extractor ''LOCATE_RETURN'' locate_return_fields parts"

definition parse_locate_order_message :: "string list \<Rightarrow> exn + pydict" where
  "parse_locate_order_message parts = extractor ''LOCATE_ORDER'' locate_order_fields parts"

definition parse_locate_avail_message :: "string list \<Rightarrow> exn + pydict" where
  "parse_locate_avail_message parts = extractor ''LOCATE_AVAIL'' locate_avail_fields parts"

definition parse_limit_down_up_message :: "string list \<Rightarrow> exn + pydict" where
  "parse_limit_down_up_message parts = extractor ''LIMIT_DOWN_UP'' limit_down_up_fields parts"

definition parse_watch_trade_message :: "string list \<Rightarrow> exn + pydict" where
  "parse_watch_trade_message parts = extractor ''WATCH_TRADE'' watch_trade_fields parts"

text \<open>The two watch-mode extractors reuse an extractor and overwrite the type.\<close>

definition retype :: "string \<Rightarrow> exn + pydict \<Rightarrow> exn + pydict" where
  "retype t r = (case r of Inl e \<Rightarrow> Inl e | Inr result \<Rightarrow> Inr (dict_set result ''type'' (PStr t)))"

definition parse_watch_order_message :: "string list \<Rightarrow> exn + pydict" where
  "parse_watch_order_message parts = retype ''WATCH_ORDER'' (parse_order_message parts)"

definition parse_watch_position_message :: "string list \<Rightarrow> exn + pydict" where
  "parse_watch_position_message parts = retype ''WATCH_POSITION'' (parse_position_message parts)"

text \<open>The dispatch on the first token, and on the prefix of the line.\<close>

definition unknown_message :: "string \<Rightarrow> pydict" where
  "unknown_message message = [(''type'', PStr ''UNKNOWN''), (''raw'', PStr message)]"

definition parse_control_message :: "string \<Rightarrow> exn + pydict" where
  "parse_control_message message =
     (let parts = split message
      in if parts = [] then Inr (unknown_message message)
         else case py_index parts 0 of
           Inl e \<Rightarrow> Inl e
         | Inr msg_type \<Rightarrow>
             if msg_type = ''%ORDER'' then parse_order_message (drop 1 parts)
             else if msg_type = ''%OrderAct'' then parse_order_action_message (drop 1 parts)
             else if msg_type = ''%POS'' then parse_position_message (drop 1 parts)
             else if msg_type = ''%BP'' then parse_buying_power_message (drop 1 parts)
             else if msg_type = ''%SHORTINFO'' then parse_short_info_message (drop 1 parts)
             else if msg_type = ''%LOCATEINFO'' then parse_locate_info_message (drop 1 parts)
             else if msg_type = ''%SLRET'' then parse_locate_return_message (drop 1 parts)
             else if msg_type = ''%SLOrder'' then parse_locate_order_message (drop 1 parts)
             else if msg_type = ''%IORDER'' then parse_watch_order_message (drop 1 parts)
             else if msg_type = ''%IPOS'' then parse_watch_position_message (drop 1 parts)
             else if msg_type = ''%ITRADE'' then parse_watch_trade_message (drop 1 parts)
             else Inr [(''type'', PStr msg_type), (''data'', PList (drop 1 parts))])"

definition parse_data_message :: "string \<Rightarrow> exn + pydict" where
  "parse_data_message message =
     (let parts = split message
      in if parts = [] then Inr (unknown_message message)
         else case py_index parts 0 of
           Inl e \<Rightarrow> Inl e
         | Inr msg_type \<Rightarrow>
             if msg_type = ''$Quote'' then parse_quote_message (drop 1 parts)
             else if msg_type = ''$Lv2'' then parse_level2_message (drop 1 parts)
             else if msg_type = ''$T&S'' then parse_time_sales_message (drop 1 parts)
             else if msg_type = ''$Chart'' \<or> msg_type = ''$Bar''
               then parse_chart_message (drop 1 parts)
             else if msg_type = ''$LDLU'' then parse_limit_down_up_message (drop 1 parts)
             else if msg_type = ''$SLAvailQueryRet'' then parse_locate_avail_message (drop 1 parts)
             else Inr [(''type'', PStr msg_type), (''data'', PList (drop 1 parts))])"

definition parse_message :: "string \<Rightarrow> exn + pydict" where
  "parse_message raw =
     (let message = strip raw
      in if startswith message ''%'' then parse_control_message message
         else if startswith message ''$'' then parse_data_message message
         else if startswith message ''ERROR''
           then Inr [(''type'', PStr ''ERROR''), (''message'', PStr (strip (drop 6 message)))]
         else if startswith message ''WARNING''
           then Inr [(''type'', PStr ''WARNING''), (''message'', PStr (strip (drop 8 message)))]
         else if startswith message ''INFO''
           then Inr [(''type'', PStr ''INFO''), (''message'', PStr (strip (drop 5 message)))]
         else Inr (unknown_message message))"

text \<open>
  The extractors, each with the type it assigns and its dictionary literal, for the
  statements about all of them.
\<close>

definition extractors ::
  "(string \<times> (string \<times> field) list \<times> (string list \<Rightarrow> exn + pydict)) list" where
  "extractors =
     [(''ORDER'', order_fields, parse_order_message),
      (''ORDER_ACTION'', order_action_fields, parse_order_action_message),
      (''POSITION'', position_fields, parse_position_message),
      (''QUOTE'', quote_fields, parse_quote_message),
      (''LEVEL2'', level2_fields, parse_level2_message),
      (''TIME_SALES'', time_sales_fields, parse_time_sales_message),
      (''CHART'', chart_fields, parse_chart_message),
      (''BUYING_POWER'', buying_power_fields, parse_buying_power_message),
      (''SHORT_INFO'', short_info_fields, parse_short_info_message),
      (''LOCATE_INFO'', locate_info_fields, parse_locate_info_message),
      (''LOCATE_RETURN'', locate_return_fields, parse_locate_return_message),
      (''LOCATE_ORDER'', locate_order_fields, parse_locate_order_message),
      (''LOCATE_AVAIL'', locate_avail_fields, parse_locate_avail_message),
      (''LIMIT_DOWN_UP'', limit_down_up_fields, parse_limit_down_up_message),
      (''WATCH_TRADE'', watch_trade_fields, parse_watch_trade_message),
      (''WATCH_ORDER'', order_fields, parse_watch_order_message),
      (''WATCH_POSITION'', position_fields, parse_watch_position_message)]"

text \<open>
  The number of tokens that an entry needs to read its value, and the value that it
  takes with fewer tokens. The market value reads the tokens of the quantity and of the
  current price.
\<close>

fun tokens_needed :: "field \<Rightarrow> nat" where
  "tokens_needed (FStr i) = i + 1"
| "tokens_needed (FInt i) = i + 1"
| "tokens_needed (FDec i) = i + 1"
| "tokens_needed (FDec0 i) = i + 1"
| "tokens_needed (FIs i w) = i + 1"
| "tokens_needed (FTime i) = i + 1"
| "tokens_needed (FTime2 i) = i + 2"
| "tokens_needed (FRest i) = i + 1"
| "tokens_needed (FProduct i j) = max i j + 1"

fun default_value :: "field \<Rightarrow> pyval" where
  "default_value (FInt i) = PInt 0"
| "default_value (FDec0 i) = PDec (Finite 0)"
| "default_value (FIs i w) = PBool False"
| "default_value (FProduct i j) = PDec (Finite 0)"
| "default_value f = PNone"

text \<open>
  An entry raises only when a token of an integer entry is there and \<open>int\<close> rejects it,
  or when the product of the market value raises.
\<close>

fun field_raises :: "string list \<Rightarrow> field \<Rightarrow> bool" where
  "field_raises parts (FInt i) = (i < length parts \<and> isl (py_int (parts ! i)))"
| "field_raises parts (FProduct i j) = isl (field_value parts (FProduct i j))"
| "field_raises parts f = False"

definition raises :: "(string \<times> field) list \<Rightarrow> string list \<Rightarrow> bool" where
  "raises fs parts = list_ex (\<lambda>(k, f). field_raises parts f) fs"

text \<open>
  A returned dictionary is well marked when it has a type and, if it has an \<open>error\<close>
  entry, also holds the tokens under \<open>raw\<close>.
\<close>

definition marked :: "string list \<Rightarrow> exn + pydict \<Rightarrow> bool" where
  "marked parts r =
     (\<exists>d t. r = Inr d \<and> map_of d ''type'' = Some (PStr t) \<and>
        (map_of d ''error'' \<noteq> None \<longrightarrow> map_of d ''raw'' = Some (PList parts)))"

section \<open>Quotes (\<open>das_trader/market_data.py\<close>)\<close>

text \<open>
  The \<open>Quote\<close> dataclass. The price fields are declared \<open>Decimal\<close>, but a quote built
  from a short message holds \<open>None\<close> there, hence the options.
\<close>

record Quote =
  symbol :: string
  bid :: "rat option"
  ask :: "rat option"
  last :: "rat option"
  bid_size :: int
  ask_size :: int
  volume :: int
  high :: "rat option"
  low :: "rat option"
  "open" :: "rat option"
  close :: "rat option"
  prev_close :: "rat option"
  timestamp :: "datetime option"

text \<open>
  The other dataclasses of the cache. Their fields hold what the message holds, whatever
  its type, so they are Python values here.
\<close>

record Level2Quote =
  symbol :: string
  side :: string
  price :: pyval
  size :: pyval
  mmid :: pyval
  timestamp :: pyval

record TimeSale =
  symbol :: string
  price :: pyval
  size :: pyval
  timestamp :: pyval
  condition :: pyval

datatype ChartType = DAY | MINUTE | TICK

record ChartBar =
  symbol :: string
  chart_type :: ChartType
  bar_open :: pyval
  bar_high :: pyval
  bar_low :: pyval
  bar_close :: pyval
  bar_volume :: pyval
  timestamp :: pyval

text \<open>\<open>MarketDataLevel\<close> and its values (\<open>das_trader/constants.py\<close>).\<close>

datatype MarketDataLevel = LEVEL1 | LEVEL2 | TIME_SALES

fun level_value :: "MarketDataLevel \<Rightarrow> string" where
  "level_value LEVEL1 = ''Lv1''"
| "level_value LEVEL2 = ''Lv2''"
| "level_value TIME_SALES = ''T&S''"

definition UNSUBSCRIBE :: string where
  "UNSUBSCRIBE = ''UNSUBSCRIBE''"

text \<open>
  The state of \<open>MarketDataManager\<close>: the four caches and the three sets of
  subscriptions. A book of \<open>_level2_data\<close> is a dictionary from the side (\<open>BID\<close>, \<open>ASK\<close>)
  to the list of entries. The connection is the collaborator that sends a command; it
  answers with the exception it raised, if any.
\<close>

type_synonym book = "string \<rightharpoonup> Level2Quote list"

record MarketDataManager =
  quotes :: "string \<rightharpoonup> Quote"
  level2_data :: "string \<rightharpoonup> book"
  time_sales :: "string \<rightharpoonup> TimeSale list"
  chart_data :: "string \<rightharpoonup> (ChartType \<rightharpoonup> ChartBar list)"
  quote_subscriptions :: "string set"
  level2_subscriptions :: "string set"
  time_sales_subscriptions :: "string set"

type_synonym connection = "string \<Rightarrow> exn option"

text \<open>The manager as \<open>__init__\<close> leaves it.\<close>

definition new_manager :: MarketDataManager where
  "new_manager =
     \<lparr>quotes = Map.empty, level2_data = Map.empty, time_sales = Map.empty,
      chart_data = Map.empty, quote_subscriptions = {}, level2_subscriptions = {},
      time_sales_subscriptions = {}\<rparr>"

text \<open>
  \<open>unsubscribe_quote\<close>. The symbol is put in upper case before the \<open>try\<close>; the body of
  the \<open>try\<close> sends the command and then, under the lock, drops the subscription and, for
  the levels 2 and time-and-sales, the cached data of the symbol. An exception of the
  body is logged and swallowed, with the state as it is.
\<close>

definition unsubscribe_body ::
  "connection \<Rightarrow> MarketDataManager \<Rightarrow> string \<Rightarrow> MarketDataLevel \<Rightarrow> exn + MarketDataManager"
  where
  "unsubscribe_body send_command s symb level =
     (case send_command (UNSUBSCRIBE @ '' '' @ symb @ '' '' @ level_value level) of
        Some e \<Rightarrow> Inl e
      | None \<Rightarrow>
          Inr (case level of
                 LEVEL1 \<Rightarrow> s\<lparr>quote_subscriptions := quote_subscriptions s - {symb}\<rparr>
               | LEVEL2 \<Rightarrow>
                   s\<lparr>level2_subscriptions := level2_subscriptions s - {symb},
                     level2_data := (level2_data s)(symb := None)\<rparr>
               | TIME_SALES \<Rightarrow>
                   s\<lparr>time_sales_subscriptions := time_sales_subscriptions s - {symb},
                     time_sales := (time_sales s)(symb := None)\<rparr>))"

definition unsubscribe_quote ::
  "connection \<Rightarrow> MarketDataManager \<Rightarrow> string \<Rightarrow> MarketDataLevel \<Rightarrow> exn + MarketDataManager"
  where
  "unsubscribe_quote send_command s symb level =
     (case unsubscribe_body send_command s (upper symb) level of
        Inl e \<Rightarrow> Inr s
      | Inr s' \<Rightarrow> Inr s')"

text \<open>
  \<open>_handle_level2_message\<close>. The handler returns the state it leaves and the exception it
  raised, if any. Reading \<open>self._level2_data[symbol]\<close> creates the two empty sides of a
  symbol that has none (a \<open>defaultdict\<close>), also when a later line raises. \<open>now\<close> is the
  clock, read for the default of the timestamp. The callbacks that run after the update
  get the new entry and a copy of the book; they are not part of the model.
\<close>

definition empty_book :: book where
  "empty_book = [''BID'' \<mapsto> [], ''ASK'' \<mapsto> []]"

fun remove_mmid :: "pyval \<Rightarrow> Level2Quote list \<Rightarrow> exn + Level2Quote list" where
  "remove_mmid m [] = Inr []"
| "remove_mmid m (q # qs) =
     (case py_ne (mmid q) m of
        Inl e \<Rightarrow> Inl e
      | Inr keep \<Rightarrow>
          (case remove_mmid m qs of
             Inl e \<Rightarrow> Inl e
           | Inr r \<Rightarrow> Inr (if keep then q # r else r)))"

definition update_book ::
  "MarketDataManager \<Rightarrow> Level2Quote \<Rightarrow> MarketDataManager \<times> exn option" where
  "update_book s q =
     (let sides = (case level2_data s (Level2Quote.symbol q) of
                     None \<Rightarrow> empty_book | Some b \<Rightarrow> b);
          s1 = s\<lparr>level2_data := (level2_data s)(Level2Quote.symbol q \<mapsto> sides)\<rparr>
      in case sides (side q) of
           None \<Rightarrow> (s1, Some (KeyError (side q)))
         | Some entries \<Rightarrow>
             (case remove_mmid (mmid q) entries of
                Inl e \<Rightarrow> (s1, Some e)
              | Inr others \<Rightarrow>
                  (case py_gt_zero (Level2Quote.size q) of
                     Inl e \<Rightarrow> (s1, Some e)
                   | Inr positive \<Rightarrow>
                       (s1\<lparr>level2_data :=
                             (level2_data s1)(Level2Quote.symbol q \<mapsto>
                                sides(side q \<mapsto> (if positive then others @ [q] else others)))\<rparr>,
                        None))))"

definition make_level2_quote :: "datetime \<Rightarrow> pydict \<Rightarrow> string \<Rightarrow> string \<Rightarrow> Level2Quote" where
  "make_level2_quote now message symb sd =
     \<lparr>Level2Quote.symbol = symb, side = sd,
      price = dict_get_default message ''price'' (PDec (Finite 0)),
      size = dict_get_default message ''size'' (PInt 0),
      mmid = dict_get_default message ''mmid'' (PStr []),
      timestamp = dict_get_default message ''timestamp'' (PTime now)\<rparr>"

definition handle_level2_message ::
  "datetime \<Rightarrow> pydict \<Rightarrow> MarketDataManager \<Rightarrow> MarketDataManager \<times> exn option" where
  "handle_level2_message now message s =
     (if \<not> truthy (dict_get message ''symbol'') then (s, None)
      else case py_upper (dict_get message ''symbol'') of
        Inl e \<Rightarrow> (s, Some e)
      | Inr symb \<Rightarrow>
          (case py_upper (dict_get_default message ''side'' (PStr [])) of
             Inl e \<Rightarrow> (s, Some e)
           | Inr sd \<Rightarrow>
               if sd \<notin> set [''BID'', ''ASK''] then (s, None)
               else update_book s (make_level2_quote now message symb sd)))"

text \<open>
  Delivery of a sequence of events, each with the time of its delivery. An exception of
  the handler does not stop the events that follow.
\<close>

fun deliver_level2 :: "MarketDataManager \<Rightarrow> (datetime \<times> pydict) list \<Rightarrow> MarketDataManager" where
  "deliver_level2 s [] = s"
| "deliver_level2 s ((now, message) # events) =
     deliver_level2 (fst (handle_level2_message now message s)) events"

text \<open>The entries of a maker on one side of the book of a symbol.\<close>

definition entries_of :: "MarketDataManager \<Rightarrow> string \<Rightarrow> string \<Rightarrow> pyval \<Rightarrow> Level2Quote list"
  where
  "entries_of s symb sd maker =
     (case level2_data s symb of
        None \<Rightarrow> []
      | Some b \<Rightarrow> (case b sd of None \<Rightarrow> [] | Some entries \<Rightarrow> filter (\<lambda>q. mmid q = maker) entries))"

text \<open>Every book has its two sides, as the \<open>defaultdict\<close> creates it.\<close>

definition book_ok :: "MarketDataManager \<Rightarrow> bool" where
  "book_ok s = (\<forall>symb b. level2_data s symb = Some b \<longrightarrow> dom b = {''BID'', ''ASK''})"

text \<open>A connection on which every command is sent.\<close>

definition always_sent :: connection where
  "always_sent command = None"

section \<open>Locate analysis (\<open>test_smart_locate.py\<close>)\<close>

text \<open>
  \<open>SmartLocateManager\<close> holds four settings; the three limits are floats, the block size
  is an integer.
\<close>

record SmartLocateManager =
  max_volume_pct :: rat
  max_cost_pct :: rat
  max_total_cost :: rat
  block_size :: int

text \<open>
  The manager talks to the terminal through three operations of the client. Each is
  awaited at most once in one analysis, so the client is modelled by what it answers:
  \<open>subscribe_quote\<close> returns or raises, \<open>get_quote\<close> returns a quote or \<open>None\<close>,
  \<open>inquire_locate_price\<close> (symbol, shares, route) returns a dictionary, \<open>None\<close>, or
  raises. Of the inquiry's dictionary the analysis reads the entries \<open>rate\<close> and
  \<open>available\<close>; an entry is \<open>None\<close> when the key is missing or holds \<open>None\<close>, and an
  empty dictionary counts as no answer (it is falsy, like \<open>None\<close>). The rate is a finite
  number (Decimal, int or float), given by its value.
\<close>

record locate_info =
  rate :: "rat option"
  available :: "bool option"

record client =
  subscribe_quote :: "string \<Rightarrow> exn option"
  get_quote :: "string \<Rightarrow> Quote option"
  inquire_locate_price :: "string \<Rightarrow> int \<Rightarrow> string \<Rightarrow> exn + locate_info option"

datatype recommendation = APPROVE | REJECT

datatype tier = VERY_CHEAP | CHEAP | MODERATE | ACCEPTABLE

text \<open>
  The entries of the \<open>reasons\<close> list are formatted strings. Each constructor stands for
  one message template of the source, with the values the template formats; the
  templates start with different words, so different constructors are different strings:
  \<^item> \<open>ReducedShares d a p\<close>: "Reduced from d to a shares (p% volume limit)";
  \<^item> \<open>NoVolumeData\<close>: "No volume data - limiting to 100 shares";
  \<^item> \<open>NoLocatePricing\<close>: "No locate pricing available";
  \<^item> \<open>EtbNoCost\<close>: "ETB stock - no locate cost";
  \<^item> \<open>InvalidRateZero\<close>: "INVALID: Locate rate is $0 (data error)";
  \<^item> \<open>TotalCostExceeded c m\<close>: "Total cost $c > $m max";
  \<^item> \<open>CostPctExceeded c m\<close>: "Cost c% > m% max";
  \<^item> \<open>TierReason t c p\<close>: "t: $c (p%)";
  \<^item> \<open>ErrorReason e\<close>: "Error: " followed by \<open>str(e)\<close>.
\<close>

datatype reason =
    ReducedShares int int rat
  | NoVolumeData
  | NoLocatePricing
  | EtbNoCost
  | InvalidRateZero
  | TotalCostExceeded rat rat
  | CostPctExceeded rat rat
  | TierReason tier rat rat
  | ErrorReason exn

text \<open>
  The \<open>analysis\<close> dictionary. The first five keys are set when it is created, \<open>volume\<close>
  and \<open>current_price\<close> in step 1; a later key is \<open>None\<close> until the source assigns it.
\<close>

record analysis =
  symbol :: string
  desired_shares :: int
  success :: bool
  recommendation :: recommendation
  reasons :: "reason list"
  volume :: int
  current_price :: rat
  allowed_shares :: "int option"
  locate_shares :: "int option"
  locate_rate :: "rat option"
  available :: "bool option"
  is_etb :: "bool option"
  locate_total_cost :: "rat option"
  position_value :: "rat option"
  cost_pct_of_position :: "rat option"

text \<open>\<open>int(x)\<close> of a float truncates towards zero; \<open>float(n)\<close> of an int rounds.\<close>

definition int_of_float :: "rat \<Rightarrow> int" where
  "int_of_float x = (if 0 \<le> x then \<lfloor>x\<rfloor> else \<lceil>x\<rceil>)"

definition float_of_int :: "int \<Rightarrow> rat" where
  "float_of_int n = float_round (of_int n)"

text \<open>Float multiplication and division: the exact result, rounded.\<close>

definition fmul :: "rat \<Rightarrow> rat \<Rightarrow> rat" where
  "fmul x y = float_round (x * y)"

definition fdiv :: "rat \<Rightarrow> rat \<Rightarrow> rat" where
  "fdiv x y = float_round (x / y)"

text \<open>
  Step 1 of \<open>analyze_locate\<close>: the price and the day's volume. With no price given the
  source subscribes (which may raise) and reads the quote; \<open>quote.last > 0\<close> on a quote
  whose \<open>last\<close> is \<open>None\<close> raises \<open>TypeError\<close>. Nothing catches an exception here.
\<close>

definition price_and_volume :: "client \<Rightarrow> string \<Rightarrow> rat option \<Rightarrow> exn + rat \<times> int" where
  "price_and_volume c symb given_price =
     (case given_price of
        None \<Rightarrow>
          (case subscribe_quote c symb of
             Some e \<Rightarrow> Inl e
           | None \<Rightarrow>
               (case get_quote c symb of
                  None \<Rightarrow> Inr (1, 0)
                | Some quote \<Rightarrow>
                    (case last quote of
                       None \<Rightarrow> Inl (TypeError (quoted ''>'' @
                         '' not supported between instances of '' @ quoted ''NoneType'' @
                         '' and '' @ quoted ''int''))
                     | Some l \<Rightarrow>
                         if 0 < l then Inr (float_round l, Quote.volume quote)
                         else Inr (1, 0))))
      | Some p \<Rightarrow>
          (case get_quote c symb of
             None \<Rightarrow> Inr (p, 0)
           | Some quote \<Rightarrow> Inr (p, Quote.volume quote)))"

text \<open>
  Step 2: the volume limit. Returns the allowed shares and the reasons added.
\<close>

definition volume_control :: "SmartLocateManager \<Rightarrow> int \<Rightarrow> int \<Rightarrow> int \<times> reason list" where
  "volume_control m desired vol =
     (if 0 < vol then
        let max_shares_by_volume =
              int_of_float (fmul (float_of_int vol) (fdiv (max_volume_pct m) 100));
            allowed = min desired max_shares_by_volume
        in (allowed,
            if max_shares_by_volume < desired
            then [ReducedShares desired allowed (max_volume_pct m)] else [])
      else (min desired 100, [NoVolumeData]))"

text \<open>
  Rounding up to the block size. \<open>//\<close> is floor division, as \<open>div\<close> on \<open>int\<close> is; a
  block size of 0 raises \<open>ZeroDivisionError\<close>, outside of any \<open>try\<close>.
\<close>

definition round_to_block :: "SmartLocateManager \<Rightarrow> int \<Rightarrow> exn + int" where
  "round_to_block m allowed =
     (if block_size m = 0 then Inl (ZeroDivisionError ''integer division or modulo by zero'')
      else
        let shares = ((allowed + block_size m - 1) div block_size m) * block_size m
        in Inr (if shares < allowed then block_size m else shares))"

text \<open>
  Steps 3 and 4, the body of the \<open>try\<close>, on the answer of the inquiry. \<open>a\<close> is the
  dictionary so far. The test for a zero rate after the easy-to-borrow return is kept as
  the source has it.
\<close>

definition evaluate_locate ::
  "SmartLocateManager \<Rightarrow> analysis \<Rightarrow> int \<Rightarrow> locate_info option \<Rightarrow> analysis" where
  "evaluate_locate m a shares info =
     (case info of
        None \<Rightarrow> a\<lparr>reasons := reasons a @ [NoLocatePricing]\<rparr>
      | Some li \<Rightarrow>
          let r = float_round (case rate li of None \<Rightarrow> 0 | Some x \<Rightarrow> x);
              avail = (case locate_info.available li of None \<Rightarrow> False | Some b \<Rightarrow> b);
              etb = (r = 0 \<or> r < float_round (1 / 100000));
              a1 = a\<lparr>locate_rate := Some r, available := Some avail, is_etb := Some etb\<rparr>
          in if etb then
               a1\<lparr>locate_total_cost := Some 0, cost_pct_of_position := Some 0,
                  recommendation := APPROVE, success := True,
                  reasons := reasons a1 @ [EtbNoCost]\<rparr>
             else if r = 0 then
               a1\<lparr>reasons := reasons a1 @ [InvalidRateZero]\<rparr>
             else
               let total_cost = fmul r (float_of_int shares);
                   pos_value = fmul (current_price a) (float_of_int shares);
                   cost_pct = (if 0 < pos_value then fmul (fdiv total_cost pos_value) 100
                               else 999);
                   a2 = a1\<lparr>locate_total_cost := Some total_cost,
                           position_value := Some pos_value,
                           cost_pct_of_position := Some cost_pct\<rparr>;
                   rs = (if max_total_cost m < total_cost
                         then [TotalCostExceeded total_cost (max_total_cost m)] else []) @
                        (if max_cost_pct m < cost_pct
                         then [CostPctExceeded cost_pct (max_cost_pct m)] else [])
               in if rs \<noteq> [] then
                    a2\<lparr>recommendation := REJECT, reasons := reasons a2 @ rs\<rparr>
                  else
                    let t = (if total_cost < 1 then VERY_CHEAP
                             else if cost_pct < 1 / 2 then CHEAP
                             else if cost_pct < 1 then MODERATE
                             else ACCEPTABLE)
                    in a2\<lparr>recommendation := APPROVE, success := True,
                          reasons := reasons a2 @ [TierReason t total_cost cost_pct]\<rparr>)"

text \<open>
  The whole operation. The inquiry asks for the rounded number of shares on the route
  \<open>ALLROUTE\<close>; an exception of the inquiry is caught and becomes a reason.
\<close>

definition analyze_locate ::
  "SmartLocateManager \<Rightarrow> client \<Rightarrow> string \<Rightarrow> int \<Rightarrow> rat option \<Rightarrow> exn + analysis" where
  "analyze_locate m c symb desired given_price =
     (case price_and_volume c symb given_price of
        Inl e \<Rightarrow> Inl e
      | Inr (p, vol) \<Rightarrow>
          let (allowed, rs) = volume_control m desired vol
          in (case round_to_block m allowed of
                Inl e \<Rightarrow> Inl e
              | Inr shares \<Rightarrow>
                  let a = \<lparr>symbol = symb, desired_shares = desired, success = False,
                           recommendation = REJECT, reasons = rs, volume = vol,
                           current_price = p, allowed_shares = Some allowed,
                           locate_shares = Some shares, locate_rate = None,
                           available = None, is_etb = None, locate_total_cost = None,
                           position_value = None, cost_pct_of_position = None\<rparr>
                  in (case inquire_locate_price c symb shares ''ALLROUTE'' of
                        Inl e \<Rightarrow> Inr (a\<lparr>reasons := reasons a @ [ErrorReason e]\<rparr>)
                      | Inr info \<Rightarrow> Inr (evaluate_locate m a shares info))))"

text \<open>The settings that \<open>SmartLocateManager.__init__\<close> takes by default.\<close>

definition default_manager :: SmartLocateManager where
  "default_manager =
     \<lparr>max_volume_pct = 1, max_cost_pct = 3 / 2, max_total_cost = 5 / 2, block_size = 100\<rparr>"

text \<open>
  A client for the scenarios: every subscription succeeds, every \<open>get_quote\<close> returns
  \<open>q\<close> and every inquiry answers \<open>r\<close>.
\<close>

definition replying_client :: "Quote option \<Rightarrow> exn + locate_info option \<Rightarrow> client" where
  "replying_client q r =
     \<lparr>subscribe_quote = (\<lambda>_. None), get_quote = (\<lambda>_. q),
      inquire_locate_price = (\<lambda>_ _ _. r)\<rparr>"

text \<open>A quote of symbol XYZ at 10 dollars with the given volume of the day.\<close>

definition xyz_quote :: "int \<Rightarrow> Quote" where
  "xyz_quote v =
     \<lparr>Quote.symbol = ''XYZ'', bid = Some 10, ask = Some 10, last = Some 10, bid_size = 0,
      ask_size = 0, Quote.volume = v, high = None, low = None, open = None, close = None,
      prev_close = None, timestamp = None\<rparr>"

text \<open>An answer of the inquiry that prices the locate at \<open>r\<close> per share.\<close>

definition priced :: "rat \<Rightarrow> exn + locate_info option" where
  "priced r = Inr (Some \<lparr>rate = Some r, available = Some True\<rparr>)"

section \<open>Example states and events\<close>

text \<open>A manager that holds a quote, a book and a tape for XYZ and is subscribed to it.\<close>

definition cached_xyz :: MarketDataManager where
  "cached_xyz =
     \<lparr>quotes = [''XYZ'' \<mapsto> xyz_quote 40000], level2_data = [''XYZ'' \<mapsto> empty_book],
      time_sales = [''XYZ'' \<mapsto> []], chart_data = Map.empty,
      quote_subscriptions = {''XYZ''}, level2_subscriptions = {''XYZ''},
      time_sales_subscriptions = {''XYZ''}\<rparr>"

text \<open>A Level 2 dictionary as the parser builds it, at a price of 10.\<close>

definition level2_event :: "string \<Rightarrow> string \<Rightarrow> string \<Rightarrow> int \<Rightarrow> pydict" where
  "level2_event symb sd maker n =
     [(''type'', PStr ''LEVEL2''), (''symbol'', PStr symb), (''side'', PStr sd),
      (''price'', PDec (Finite 10)), (''size'', PInt n), (''mmid'', PStr maker),
      (''timestamp'', PNone)]"

definition noon :: datetime where
  "noon = Datetime 2024 1 15 12 0 0"

section \<open>Properties of \<open>calculate_pnl\<close>\<close>

lemma ExactContext_id [simp]: "ExactContext x = x"
  by (simp add: ExactContext_def)






section \<open>Properties of \<open>analyze_locate\<close>\<close>

lemma volume_control_reasons:
  "volume_control m d v = (al, rs) \<Longrightarrow>
     set rs \<subseteq> {ReducedShares d al (max_volume_pct m), NoVolumeData}"
  by (auto simp: volume_control_def Let_def split: if_splits)

text \<open>
  A run that returns has passed steps 1 and 2 and has either caught an exception of the
  inquiry or evaluated its answer.
\<close>

lemma analyze_locate_Inr:
  assumes "analyze_locate m c symb desired given_price = Inr a"
  obtains p vol allowed rs shares where
    "price_and_volume c symb given_price = Inr (p, vol)"
    "volume_control m desired vol = (allowed, rs)"
    "round_to_block m allowed = Inr shares"
    "(\<exists>e. inquire_locate_price c symb shares ''ALLROUTE'' = Inl e \<and>
          a = \<lparr>symbol = symb, desired_shares = desired, success = False,
               recommendation = REJECT, reasons = rs @ [ErrorReason e], volume = vol,
               current_price = p, allowed_shares = Some allowed,
               locate_shares = Some shares, locate_rate = None,
               available = None, is_etb = None, locate_total_cost = None,
               position_value = None, cost_pct_of_position = None\<rparr>) \<or>
     (\<exists>info. inquire_locate_price c symb shares ''ALLROUTE'' = Inr info \<and>
          a = evaluate_locate m
               \<lparr>symbol = symb, desired_shares = desired, success = False,
                recommendation = REJECT, reasons = rs, volume = vol,
                current_price = p, allowed_shares = Some allowed,
                locate_shares = Some shares, locate_rate = None,
                available = None, is_etb = None, locate_total_cost = None,
                position_value = None, cost_pct_of_position = None\<rparr> shares info)"
  using assms
  by (auto simp: analyze_locate_def Let_def split: sum.splits prod.splits)

lemma evaluate_locate_no_invalid:
  "InvalidRateZero \<notin> set (reasons a0) \<Longrightarrow>
   InvalidRateZero \<notin> set (reasons (evaluate_locate m a0 shares info))"
  by (auto simp: evaluate_locate_def Let_def split: option.splits)

lemma evaluate_locate_rate_zero:
  "locate_rate (evaluate_locate m a0 shares info) = Some 0 \<Longrightarrow> locate_rate a0 = None \<Longrightarrow>
   recommendation (evaluate_locate m a0 shares info) = APPROVE \<and>
   success (evaluate_locate m a0 shares info) \<and>
   is_etb (evaluate_locate m a0 shares info) = Some True \<and>
   locate_total_cost (evaluate_locate m a0 shares info) = Some 0 \<and>
   cost_pct_of_position (evaluate_locate m a0 shares info) = Some 0 \<and>
   EtbNoCost \<in> set (reasons (evaluate_locate m a0 shares info))"
  by (auto simp: evaluate_locate_def Let_def split: option.splits if_splits)

lemma evaluate_locate_priced:
  assumes "is_etb (evaluate_locate m a0 shares info) = Some False"
    and "is_etb a0 = None"
    and "set (reasons a0) \<subseteq> {ReducedShares d al v, NoVolumeData}"
  shows "\<exists>r tc pv pct.
           locate_rate (evaluate_locate m a0 shares info) = Some r \<and>
           locate_total_cost (evaluate_locate m a0 shares info) = Some tc \<and>
           position_value (evaluate_locate m a0 shares info) = Some pv \<and>
           cost_pct_of_position (evaluate_locate m a0 shares info) = Some pct \<and>
           tc = fmul r (float_of_int shares) \<and>
           pv = fmul (current_price a0) (float_of_int shares) \<and>
           pct = (if 0 < pv then fmul (fdiv tc pv) 100 else 999) \<and>
           (recommendation (evaluate_locate m a0 shares info) = REJECT \<longleftrightarrow>
              max_total_cost m < tc \<or> max_cost_pct m < pct) \<and>
           (TotalCostExceeded tc (max_total_cost m)
              \<in> set (reasons (evaluate_locate m a0 shares info)) \<longleftrightarrow>
              max_total_cost m < tc) \<and>
           (CostPctExceeded pct (max_cost_pct m)
              \<in> set (reasons (evaluate_locate m a0 shares info)) \<longleftrightarrow>
              max_cost_pct m < pct)"
  using assms
  by (cases info) (auto simp: evaluate_locate_def Let_def split: if_splits)

lemma locate_scenario_approve:
  "analyze_locate default_manager
     (replying_client (Some (xyz_quote 40000)) (priced (6 / 1000))) ''XYZ'' 500 (Some 10) =
   Inr \<lparr>symbol = ''XYZ'', desired_shares = 500, success = True,
        recommendation = APPROVE,
        reasons = [ReducedShares 500 400 1,
                   TierReason CHEAP (float_round (24 / 10)) (float_round (6 / 100))],
        volume = 40000, current_price = 10, allowed_shares = Some 400,
        locate_shares = Some 400, locate_rate = Some (float_round (6 / 1000)),
        available = Some True, is_etb = Some False,
        locate_total_cost = Some (float_round (24 / 10)),
        position_value = Some 4000,
        cost_pct_of_position = Some (float_round (6 / 100))\<rparr>"
  by code_simp

lemma locate_scenario_reject:
  "analyze_locate default_manager
     (replying_client (Some (xyz_quote 40000)) (priced (5 / 100))) ''XYZ'' 500 (Some 10) =
   Inr \<lparr>symbol = ''XYZ'', desired_shares = 500, success = False,
        recommendation = REJECT,
        reasons = [ReducedShares 500 400 1, TotalCostExceeded 20 (5 / 2)],
        volume = 40000, current_price = 10, allowed_shares = Some 400,
        locate_shares = Some 400, locate_rate = Some (float_round (5 / 100)),
        available = Some True, is_etb = Some False, locate_total_cost = Some 20,
        position_value = Some 4000, cost_pct_of_position = Some (1 / 2)\<rparr>"
  by code_simp

lemma locate_scenario_free:
  "analyze_locate default_manager
     (replying_client (Some (xyz_quote 40000)) (priced 0)) ''XYZ'' 500 (Some 10) =
   Inr \<lparr>symbol = ''XYZ'', desired_shares = 500, success = True,
        recommendation = APPROVE,
        reasons = [ReducedShares 500 400 1, EtbNoCost],
        volume = 40000, current_price = 10, allowed_shares = Some 400,
        locate_shares = Some 400, locate_rate = Some 0,
        available = Some True, is_etb = Some True, locate_total_cost = Some 0,
        position_value = None, cost_pct_of_position = Some 0\<rparr>"
  by code_simp

lemma float_round_scenario_values:
  "\<bar>float_round (24 / 10) - 24 / 10\<bar> < 1 / 10 ^ 15"
  "\<bar>float_round (6 / 100) - 6 / 100\<bar> < 1 / 10 ^ 15"
  by code_simp+

text \<open>
  Claim C5. With the settings \<open>max_volume_pct = 1.0\<close>, \<open>block_size = 100\<close>,
  \<open>max_total_cost = 2.50\<close> and \<open>max_cost_pct = 1.5\<close>, for 500 desired shares of a symbol
  with a day's volume of 40,000, a price of 10 dollars and an inquiry that answers a rate
  of 0.006 per share, \<open>analyze_locate\<close> returns \<open>allowed_shares = 400\<close>,
  \<open>locate_shares = 400\<close>, a total cost of 2.40 and a cost percentage of 0.06 (each the
  float next to that number), a position value of 4,000 and the recommendation
  \<open>APPROVE\<close>.
\<close>

theorem analyze_locate_approve_scenario:
  "analyze_locate default_manager
     (replying_client (Some (xyz_quote 40000)) (priced (6 / 1000))) ''XYZ'' 500 (Some 10) =
   Inr \<lparr>symbol = ''XYZ'', desired_shares = 500, success = True,
        recommendation = APPROVE,
        reasons = [ReducedShares 500 400 1,
                   TierReason CHEAP (float_round (24 / 10)) (float_round (6 / 100))],
        volume = 40000, current_price = 10, allowed_shares = Some 400,
        locate_shares = Some 400, locate_rate = Some (float_round (6 / 1000)),
        available = Some True, is_etb = Some False,
        locate_total_cost = Some (float_round (24 / 10)),
        position_value = Some 4000,
        cost_pct_of_position = Some (float_round (6 / 100))\<rparr> \<and>
   \<bar>float_round (24 / 10) - 24 / 10\<bar> < 1 / 10 ^ 15 \<and>
   \<bar>float_round (6 / 100) - 6 / 100\<bar> < 1 / 10 ^ 15 \<and>
   float_round (24 / 10) \<le> max_total_cost default_manager \<and>
   float_round (6 / 100) \<le> max_cost_pct default_manager"
proof -
  have "float_round (24 / 10) \<le> max_total_cost default_manager"
    by code_simp
  moreover have "float_round (6 / 100) \<le> max_cost_pct default_manager"
    by code_simp
  ultimately show ?thesis
    using locate_scenario_approve float_round_scenario_values by simp
qed

text \<open>
  Claim C6. For a priced answer (one that is not easy to borrow), the recommendation is
  \<open>REJECT\<close> exactly when the total cost (rate times shares) is above
  \<open>max_total_cost\<close> or the cost percentage of the position value is above
  \<open>max_cost_pct\<close>, and each exceeded limit has its message in the reasons. A rate of
  0.05 on 400 shares costs 20.00, above the limit of 2.50: the recommendation is
  \<open>REJECT\<close> and the reasons contain the total-cost message.
\<close>

theorem analyze_locate_reject_iff:
  "(analyze_locate m c symb desired given_price = Inr a \<and> is_etb a = Some False \<longrightarrow>
      (\<exists>r n tc pv pct.
         locate_rate a = Some r \<and> locate_shares a = Some n \<and>
         locate_total_cost a = Some tc \<and> position_value a = Some pv \<and>
         cost_pct_of_position a = Some pct \<and>
         tc = fmul r (float_of_int n) \<and>
         pv = fmul (current_price a) (float_of_int n) \<and>
         pct = (if 0 < pv then fmul (fdiv tc pv) 100 else 999) \<and>
         (recommendation a = REJECT \<longleftrightarrow> max_total_cost m < tc \<or> max_cost_pct m < pct) \<and>
         (TotalCostExceeded tc (max_total_cost m) \<in> set (reasons a) \<longleftrightarrow>
            max_total_cost m < tc) \<and>
         (CostPctExceeded pct (max_cost_pct m) \<in> set (reasons a) \<longleftrightarrow>
            max_cost_pct m < pct))) \<and>
   (\<exists>b. analyze_locate default_manager
           (replying_client (Some (xyz_quote 40000)) (priced (5 / 100)))
           ''XYZ'' 500 (Some 10) = Inr b \<and>
        locate_shares b = Some 400 \<and> locate_total_cost b = Some 20 \<and>
        recommendation b = REJECT \<and>
        TotalCostExceeded 20 (5 / 2) \<in> set (reasons b))"
proof (intro conjI impI)
  assume run: "analyze_locate m c symb desired given_price = Inr a \<and> is_etb a = Some False"
  then have ret: "analyze_locate m c symb desired given_price = Inr a"
    by simp
  obtain p vol allowed rs shares where
    "price_and_volume c symb given_price = Inr (p, vol)" and
    vc: "volume_control m desired vol = (allowed, rs)" and
    "round_to_block m allowed = Inr shares" and
    res: "(\<exists>e. inquire_locate_price c symb shares ''ALLROUTE'' = Inl e \<and>
          a = \<lparr>symbol = symb, desired_shares = desired, success = False,
               recommendation = REJECT, reasons = rs @ [ErrorReason e], volume = vol,
               current_price = p, allowed_shares = Some allowed,
               locate_shares = Some shares, locate_rate = None,
               available = None, is_etb = None, locate_total_cost = None,
               position_value = None, cost_pct_of_position = None\<rparr>) \<or>
     (\<exists>info. inquire_locate_price c symb shares ''ALLROUTE'' = Inr info \<and>
          a = evaluate_locate m
               \<lparr>symbol = symb, desired_shares = desired, success = False,
                recommendation = REJECT, reasons = rs, volume = vol,
                current_price = p, allowed_shares = Some allowed,
                locate_shares = Some shares, locate_rate = None,
                available = None, is_etb = None, locate_total_cost = None,
                position_value = None, cost_pct_of_position = None\<rparr> shares info)"
    using ret by (rule analyze_locate_Inr)
  let ?a0 = "\<lparr>symbol = symb, desired_shares = desired, success = False,
                recommendation = REJECT, reasons = rs, volume = vol,
                current_price = p, allowed_shares = Some allowed,
                locate_shares = Some shares, locate_rate = None,
                available = None, is_etb = None, locate_total_cost = None,
                position_value = None, cost_pct_of_position = None\<rparr>"
  from res run obtain info where a: "a = evaluate_locate m ?a0 shares info"
    by auto
  have etb: "is_etb (evaluate_locate m ?a0 shares info) = Some False"
    using run a by simp
  have rs: "set (reasons ?a0) \<subseteq> {ReducedShares desired allowed (max_volume_pct m), NoVolumeData}"
    using volume_control_reasons [OF vc] by simp
  have keep: "locate_shares (evaluate_locate m ?a0 shares info) = Some shares"
    "current_price (evaluate_locate m ?a0 shares info) = p"
    by (auto simp: evaluate_locate_def Let_def split: option.splits)
  from evaluate_locate_priced [OF etb _ rs]
  show "\<exists>r n tc pv pct.
         locate_rate a = Some r \<and> locate_shares a = Some n \<and>
         locate_total_cost a = Some tc \<and> position_value a = Some pv \<and>
         cost_pct_of_position a = Some pct \<and>
         tc = fmul r (float_of_int n) \<and>
         pv = fmul (current_price a) (float_of_int n) \<and>
         pct = (if 0 < pv then fmul (fdiv tc pv) 100 else 999) \<and>
         (recommendation a = REJECT \<longleftrightarrow> max_total_cost m < tc \<or> max_cost_pct m < pct) \<and>
         (TotalCostExceeded tc (max_total_cost m) \<in> set (reasons a) \<longleftrightarrow>
            max_total_cost m < tc) \<and>
         (CostPctExceeded pct (max_cost_pct m) \<in> set (reasons a) \<longleftrightarrow>
            max_cost_pct m < pct)"
    unfolding a keep by simp
next
  show "\<exists>b. analyze_locate default_manager
           (replying_client (Some (xyz_quote 40000)) (priced (5 / 100)))
           ''XYZ'' 500 (Some 10) = Inr b \<and>
        locate_shares b = Some 400 \<and> locate_total_cost b = Some 20 \<and>
        recommendation b = REJECT \<and>
        TotalCostExceeded 20 (5 / 2) \<in> set (reasons b)"
    unfolding locate_scenario_reject by simp
qed

theorem analyze_locate_reject_iff_witness:
  "analyze_locate default_manager
     (replying_client (Some (xyz_quote 40000)) (priced (5 / 100))) ''XYZ'' 500 (Some 10) =
   Inr \<lparr>symbol = ''XYZ'', desired_shares = 500, success = False,
        recommendation = REJECT,
        reasons = [ReducedShares 500 400 1, TotalCostExceeded 20 (5 / 2)],
        volume = 40000, current_price = 10, allowed_shares = Some 400,
        locate_shares = Some 400, locate_rate = Some (float_round (5 / 100)),
        available = Some True, is_etb = Some False, locate_total_cost = Some 20,
        position_value = Some 4000, cost_pct_of_position = Some (1 / 2)\<rparr> \<and>
   (REJECT = REJECT \<longleftrightarrow>
      max_total_cost default_manager < 20 \<or> max_cost_pct default_manager < 1 / 2)"
  using analyze_locate_reject_iff [of default_manager
      "replying_client (Some (xyz_quote 40000)) (priced (5 / 100))" "''XYZ''" 500 "Some 10"
      "\<lparr>symbol = ''XYZ'', desired_shares = 500, success = False,
        recommendation = REJECT,
        reasons = [ReducedShares 500 400 1, TotalCostExceeded 20 (5 / 2)],
        volume = 40000, current_price = 10, allowed_shares = Some 400,
        locate_shares = Some 400, locate_rate = Some (float_round (5 / 100)),
        available = Some True, is_etb = Some False, locate_total_cost = Some 20,
        position_value = Some 4000, cost_pct_of_position = Some (1 / 2)\<rparr>"]
  unfolding locate_scenario_reject by (simp add: default_manager_def)

text \<open>With a price given and a block size other than 0, the analysis returns.\<close>

lemma analyze_locate_returns:
  "block_size m \<noteq> 0 \<Longrightarrow> \<exists>a. analyze_locate m c symb desired (Some p) = Inr a"
  by (auto simp: analyze_locate_def price_and_volume_def round_to_block_def Let_def
      split: option.splits sum.splits prod.splits)

text \<open>
  Claim C10. Whenever the rate that the analysis reads from the answer of the inquiry
  equals 0 (in particular when the answer has no rate, or the rate 0), the answer counts
  as easy to borrow and the analysis returns \<open>APPROVE\<close> with a total cost and a cost
  percentage of 0. No run of \<open>analyze_locate\<close> returns the reason "INVALID: Locate rate
  is $0 (data error)": the branch that adds it cannot be reached.
\<close>

theorem analyze_locate_zero_rate:
  "(analyze_locate m c symb desired given_price = Inr a \<and> locate_rate a = Some 0 \<longrightarrow>
      is_etb a = Some True \<and> recommendation a = APPROVE \<and> success a \<and>
      locate_total_cost a = Some 0 \<and> cost_pct_of_position a = Some 0 \<and>
      EtbNoCost \<in> set (reasons a)) \<and>
   (analyze_locate m c symb desired given_price = Inr a \<and> locate_shares a = Some n \<and>
    inquire_locate_price c symb n ''ALLROUTE'' = Inr (Some li) \<and>
    (rate li = None \<or> rate li = Some 0) \<longrightarrow> locate_rate a = Some 0) \<and>
   (analyze_locate m c symb desired given_price = Inr a \<longrightarrow>
      InvalidRateZero \<notin> set (reasons a))"
proof -
  have part1: "analyze_locate m c symb desired given_price = Inr a \<and> locate_rate a = Some 0 \<longrightarrow>
      is_etb a = Some True \<and> recommendation a = APPROVE \<and> success a \<and>
      locate_total_cost a = Some 0 \<and> cost_pct_of_position a = Some 0 \<and>
      EtbNoCost \<in> set (reasons a)"
  proof (rule impI)
  assume run: "analyze_locate m c symb desired given_price = Inr a \<and> locate_rate a = Some 0"
  then have ret: "analyze_locate m c symb desired given_price = Inr a"
    by simp
  show "is_etb a = Some True \<and> recommendation a = APPROVE \<and> success a \<and>
      locate_total_cost a = Some 0 \<and> cost_pct_of_position a = Some 0 \<and>
      EtbNoCost \<in> set (reasons a)"
    using ret
  proof (rule analyze_locate_Inr)
    fix p vol allowed rs shares
    assume "(\<exists>e. inquire_locate_price c symb shares ''ALLROUTE'' = Inl e \<and>
          a = \<lparr>symbol = symb, desired_shares = desired, success = False,
               recommendation = REJECT, reasons = rs @ [ErrorReason e], volume = vol,
               current_price = p, allowed_shares = Some allowed,
               locate_shares = Some shares, locate_rate = None,
               available = None, is_etb = None, locate_total_cost = None,
               position_value = None, cost_pct_of_position = None\<rparr>) \<or>
     (\<exists>info. inquire_locate_price c symb shares ''ALLROUTE'' = Inr info \<and>
          a = evaluate_locate m
               \<lparr>symbol = symb, desired_shares = desired, success = False,
                recommendation = REJECT, reasons = rs, volume = vol,
                current_price = p, allowed_shares = Some allowed,
                locate_shares = Some shares, locate_rate = None,
                available = None, is_etb = None, locate_total_cost = None,
                position_value = None, cost_pct_of_position = None\<rparr> shares info)"
    with run show ?thesis
      by (auto dest: evaluate_locate_rate_zero)
  qed
  qed
  have part2: "analyze_locate m c symb desired given_price = Inr a \<and> locate_shares a = Some n \<and>
    inquire_locate_price c symb n ''ALLROUTE'' = Inr (Some li) \<and>
    (rate li = None \<or> rate li = Some 0) \<longrightarrow> locate_rate a = Some 0"
  proof (rule impI)
  assume run: "analyze_locate m c symb desired given_price = Inr a \<and> locate_shares a = Some n \<and>
    inquire_locate_price c symb n ''ALLROUTE'' = Inr (Some li) \<and>
    (rate li = None \<or> rate li = Some 0)"
  then have ret: "analyze_locate m c symb desired given_price = Inr a"
    by simp
  have zero: "float_round 0 = 0"
    by (simp add: float_round_def round_sig_def)
  have keep: "locate_shares (evaluate_locate m a0 k info) = locate_shares a0" for a0 k info
    by (auto simp: evaluate_locate_def Let_def split: option.splits)
  show "locate_rate a = Some 0"
    using ret
  proof (rule analyze_locate_Inr)
    fix p vol allowed rs shares
    assume "(\<exists>e. inquire_locate_price c symb shares ''ALLROUTE'' = Inl e \<and>
          a = \<lparr>symbol = symb, desired_shares = desired, success = False,
               recommendation = REJECT, reasons = rs @ [ErrorReason e], volume = vol,
               current_price = p, allowed_shares = Some allowed,
               locate_shares = Some shares, locate_rate = None,
               available = None, is_etb = None, locate_total_cost = None,
               position_value = None, cost_pct_of_position = None\<rparr>) \<or>
     (\<exists>info. inquire_locate_price c symb shares ''ALLROUTE'' = Inr info \<and>
          a = evaluate_locate m
               \<lparr>symbol = symb, desired_shares = desired, success = False,
                recommendation = REJECT, reasons = rs, volume = vol,
                current_price = p, allowed_shares = Some allowed,
                locate_shares = Some shares, locate_rate = None,
                available = None, is_etb = None, locate_total_cost = None,
                position_value = None, cost_pct_of_position = None\<rparr> shares info)"
    with run show ?thesis
      by (auto simp: keep) (auto simp: evaluate_locate_def Let_def zero)
  qed
  qed
  have part3: "analyze_locate m c symb desired given_price = Inr a \<longrightarrow>
      InvalidRateZero \<notin> set (reasons a)"
  proof (rule impI)
  assume ret: "analyze_locate m c symb desired given_price = Inr a"
  show "InvalidRateZero \<notin> set (reasons a)"
    using ret
  proof (rule analyze_locate_Inr)
    fix p vol allowed rs shares
    assume vc: "volume_control m desired vol = (allowed, rs)"
    assume res: "(\<exists>e. inquire_locate_price c symb shares ''ALLROUTE'' = Inl e \<and>
          a = \<lparr>symbol = symb, desired_shares = desired, success = False,
               recommendation = REJECT, reasons = rs @ [ErrorReason e], volume = vol,
               current_price = p, allowed_shares = Some allowed,
               locate_shares = Some shares, locate_rate = None,
               available = None, is_etb = None, locate_total_cost = None,
               position_value = None, cost_pct_of_position = None\<rparr>) \<or>
     (\<exists>info. inquire_locate_price c symb shares ''ALLROUTE'' = Inr info \<and>
          a = evaluate_locate m
               \<lparr>symbol = symb, desired_shares = desired, success = False,
                recommendation = REJECT, reasons = rs, volume = vol,
                current_price = p, allowed_shares = Some allowed,
                locate_shares = Some shares, locate_rate = None,
                available = None, is_etb = None, locate_total_cost = None,
                position_value = None, cost_pct_of_position = None\<rparr> shares info)"
    have rs: "InvalidRateZero \<notin> set rs"
      using volume_control_reasons [OF vc] by auto
    from res show ?thesis
    proof
      assume "\<exists>e. inquire_locate_price c symb shares ''ALLROUTE'' = Inl e \<and>
          a = \<lparr>symbol = symb, desired_shares = desired, success = False,
               recommendation = REJECT, reasons = rs @ [ErrorReason e], volume = vol,
               current_price = p, allowed_shares = Some allowed,
               locate_shares = Some shares, locate_rate = None,
               available = None, is_etb = None, locate_total_cost = None,
               position_value = None, cost_pct_of_position = None\<rparr>"
      with rs show ?thesis
        by auto
    next
      assume "\<exists>info. inquire_locate_price c symb shares ''ALLROUTE'' = Inr info \<and>
          a = evaluate_locate m
               \<lparr>symbol = symb, desired_shares = desired, success = False,
                recommendation = REJECT, reasons = rs, volume = vol,
                current_price = p, allowed_shares = Some allowed,
                locate_shares = Some shares, locate_rate = None,
                available = None, is_etb = None, locate_total_cost = None,
                position_value = None, cost_pct_of_position = None\<rparr> shares info"
      then obtain info where "a = evaluate_locate m
               \<lparr>symbol = symb, desired_shares = desired, success = False,
                recommendation = REJECT, reasons = rs, volume = vol,
                current_price = p, allowed_shares = Some allowed,
                locate_shares = Some shares, locate_rate = None,
                available = None, is_etb = None, locate_total_cost = None,
                position_value = None, cost_pct_of_position = None\<rparr> shares info"
        by blast
      then show ?thesis
        using rs by (simp add: evaluate_locate_no_invalid)
    qed
  qed
  qed
  show ?thesis
    using part1 part2 part3 by (intro conjI)
qed

theorem analyze_locate_zero_rate_witness:
  "analyze_locate default_manager
     (replying_client (Some (xyz_quote 40000)) (priced 0)) ''XYZ'' 500 (Some 10) =
   Inr \<lparr>symbol = ''XYZ'', desired_shares = 500, success = True,
        recommendation = APPROVE,
        reasons = [ReducedShares 500 400 1, EtbNoCost],
        volume = 40000, current_price = 10, allowed_shares = Some 400,
        locate_shares = Some 400, locate_rate = Some 0,
        available = Some True, is_etb = Some True, locate_total_cost = Some 0,
        position_value = None, cost_pct_of_position = Some 0\<rparr> \<and>
   inquire_locate_price (replying_client (Some (xyz_quote 40000)) (priced 0))
     ''XYZ'' 400 ''ALLROUTE'' = Inr (Some \<lparr>rate = Some 0, available = Some True\<rparr>) \<and>
   InvalidRateZero \<notin> set [ReducedShares 500 400 1, EtbNoCost]"
  using analyze_locate_zero_rate [of default_manager
      "replying_client (Some (xyz_quote 40000)) (priced 0)" "''XYZ''" 500 "Some 10"
      "\<lparr>symbol = ''XYZ'', desired_shares = 500, success = True,
        recommendation = APPROVE,
        reasons = [ReducedShares 500 400 1, EtbNoCost],
        volume = 40000, current_price = 10, allowed_shares = Some 400,
        locate_shares = Some 400, locate_rate = Some 0,
        available = Some True, is_etb = Some True, locate_total_cost = Some 0,
        position_value = None, cost_pct_of_position = Some 0\<rparr>" 400
      "\<lparr>rate = Some 0, available = Some True\<rparr>"]
  unfolding locate_scenario_free by (simp add: replying_client_def priced_def)

section \<open>Properties of the Level 2 book\<close>

lemma py_ne_string: "py_ne x (PStr m) = Inr (x \<noteq> PStr m)"
  by (simp add: py_ne_def)

lemma py_ne_of_string: "py_ne (PStr m) y = Inr (PStr m \<noteq> y)"
  by (simp add: py_ne_def)

lemma remove_mmid_entries:
  "remove_mmid m qs = Inr r \<Longrightarrow>
   filter (\<lambda>q. mmid q = PStr i) r =
     (if m = PStr i then [] else filter (\<lambda>q. mmid q = PStr i) qs)"
proof (induction qs arbitrary: r)
  case Nil
  then show ?case by auto
next
  case (Cons q qs)
  then show ?case
    by (auto simp: py_ne_string py_ne_of_string split: sum.splits if_splits)
qed

lemma entries_of_store:
  "entries_of (s\<lparr>level2_data := (level2_data s)(k \<mapsto> b)\<rparr>) symb sd m =
     (if symb = k then (case b sd of None \<Rightarrow> [] | Some es \<Rightarrow> filter (\<lambda>q. mmid q = m) es)
      else entries_of s symb sd m)"
  by (simp add: entries_of_def)

lemma entries_of_create:
  "entries_of (s\<lparr>level2_data := (level2_data s)(k \<mapsto>
      (case level2_data s k of None \<Rightarrow> empty_book | Some b \<Rightarrow> b))\<rparr>) symb sd m =
   entries_of s symb sd m"
  by (auto simp: entries_of_def empty_book_def split: option.splits)

lemma update_book_entries:
  "entries_of (fst (update_book s q)) symb sd (PStr i) =
     (if snd (update_book s q) = None \<and> symb = Level2Quote.symbol q \<and> sd = side q \<and>
         mmid q = PStr i
      then (if py_gt_zero (Level2Quote.size q) = Inr True then [q] else [])
      else entries_of s symb sd (PStr i))"
proof -
  define sides where "sides = (case level2_data s (Level2Quote.symbol q) of
                     None \<Rightarrow> empty_book | Some b \<Rightarrow> b)"
  define s1 where "s1 = s\<lparr>level2_data := (level2_data s)(Level2Quote.symbol q \<mapsto> sides)\<rparr>"
  have s1: "entries_of s1 symb sd (PStr i) = entries_of s symb sd (PStr i)"
    unfolding s1_def sides_def by (rule entries_of_create)
  have old: "entries_of s (Level2Quote.symbol q) sd' m =
     (case sides sd' of None \<Rightarrow> [] | Some es \<Rightarrow> filter (\<lambda>q. mmid q = m) es)" for sd' m
    by (auto simp: entries_of_def sides_def empty_book_def split: option.splits)
  show ?thesis
  proof (cases "sides (side q)")
    case None
    then show ?thesis
      using s1 by (simp add: update_book_def Let_def sides_def s1_def)
  next
    case (Some entries)
    show ?thesis
    proof (cases "remove_mmid (mmid q) entries")
      case (Inl e)
      then show ?thesis
        using s1 Some by (simp add: update_book_def Let_def sides_def s1_def)
    next
      case (Inr others)
      note rm = remove_mmid_entries [OF Inr, of i]
      show ?thesis
      proof (cases "py_gt_zero (Level2Quote.size q)")
        case (Inl e)
        then show ?thesis
          using s1 Some Inr by (simp add: update_book_def Let_def sides_def s1_def)
      next
        case pos: (Inr positive)
        have fin: "fst (update_book s q) =
            s1\<lparr>level2_data := (level2_data s1)(Level2Quote.symbol q \<mapsto>
                 sides(side q \<mapsto> (if positive then others @ [q] else others)))\<rparr>"
          and ok: "snd (update_book s q) = None"
          using Some Inr pos by (simp_all add: update_book_def Let_def sides_def s1_def)
        show ?thesis
          unfolding fin ok entries_of_store s1
          using rm Some pos old [of sd "PStr i"] by auto
      qed
    qed
  qed
qed


lemma handle_level2_entries:
  "entries_of (fst (handle_level2_message now message s)) symb sd (PStr i) =
     entries_of s symb sd (PStr i) \<or>
   length (entries_of (fst (handle_level2_message now message s)) symb sd (PStr i)) \<le> 1"
  by (auto simp: handle_level2_message_def update_book_entries split: sum.splits)

lemma deliver_level2_at_most_one:
  "length (entries_of s symb sd (PStr i)) \<le> 1 \<Longrightarrow>
   length (entries_of (deliver_level2 s events) symb sd (PStr i)) \<le> 1"
proof (induction events arbitrary: s)
  case Nil
  then show ?case by simp
next
  case (Cons ev events)
  obtain now message where ev: "ev = (now, message)"
    by (cases ev)
  have "length (entries_of (fst (handle_level2_message now message s)) symb sd (PStr i)) \<le> 1"
    using handle_level2_entries [of now message s symb sd i] Cons.prems by auto
  then show ?case
    using Cons.IH ev by simp
qed

lemma update_book_ok:
  assumes "book_ok s" and "side q \<in> {''BID'', ''ASK''}"
  shows "book_ok (fst (update_book s q))"
proof -
  define sides where "sides = (case level2_data s (Level2Quote.symbol q) of
                     None \<Rightarrow> empty_book | Some b \<Rightarrow> b)"
  have dom_sides: "dom sides = {''BID'', ''ASK''}"
    using assms(1) by (auto simp: sides_def book_ok_def empty_book_def split: option.splits if_splits)
  have store: "book_ok (s\<lparr>level2_data := (level2_data s)(k \<mapsto> b)\<rparr>)"
    if "dom b = {''BID'', ''ASK''}" for k b
    using assms(1) that by (auto simp: book_ok_def)
  have upd: "dom (sides(side q \<mapsto> es)) = {''BID'', ''ASK''}" for es
    using dom_sides assms(2) by auto
  show ?thesis
    using store [OF dom_sides] store [OF upd]
    by (auto simp: update_book_def Let_def sides_def [symmetric] split: option.splits sum.splits)
qed

lemma handle_level2_ok:
  "book_ok s \<Longrightarrow> book_ok (fst (handle_level2_message now message s))"
proof -
  have side: "side (make_level2_quote now message symb sd) = sd" for symb sd
    by (simp add: make_level2_quote_def)
  assume "book_ok s"
  then show ?thesis
    by (auto simp: handle_level2_message_def side intro!: update_book_ok split: sum.splits)
qed

lemma deliver_level2_ok:
  "book_ok s \<Longrightarrow> book_ok (deliver_level2 s events)"
  by (induction events arbitrary: s) (auto simp: handle_level2_ok)

lemma new_manager_ok: "book_ok new_manager"
  by (simp add: book_ok_def new_manager_def)

lemma new_manager_entries: "entries_of new_manager symb sd m = []"
  by (simp add: entries_of_def new_manager_def)

lemma remove_mmid_string:
  "remove_mmid (PStr m) qs = Inr (filter (\<lambda>q. mmid q \<noteq> PStr m) qs)"
  by (induction qs) (simp_all add: py_ne_string)

lemma update_book_succeeds:
  assumes "book_ok s" and "side q \<in> {''BID'', ''ASK''}"
    and "mmid q = PStr i" and "Level2Quote.size q = PInt n"
  shows "snd (update_book s q) = None"
proof -
  define sides where "sides = (case level2_data s (Level2Quote.symbol q) of
                     None \<Rightarrow> empty_book | Some b \<Rightarrow> b)"
  have "dom sides = {''BID'', ''ASK''}"
    using assms(1) by (auto simp: sides_def book_ok_def empty_book_def split: option.splits if_splits)
  then obtain es where "sides (side q) = Some es"
    using assms(2) by blast
  then show ?thesis
    using assms(3,4)
    by (simp add: update_book_def Let_def sides_def [symmetric] remove_mmid_string)
qed

lemma handle_level2_typed:
  assumes "book_ok s"
    and "dict_get message ''symbol'' = PStr sy" and "sy \<noteq> []"
    and "dict_get_default message ''side'' (PStr []) = PStr sd0"
    and "upper sd0 \<in> {''BID'', ''ASK''}"
    and "dict_get_default message ''mmid'' (PStr []) = PStr i"
    and "dict_get_default message ''size'' (PInt 0) = PInt n"
  shows "snd (handle_level2_message now message s) = None"
    and "entries_of (fst (handle_level2_message now message s)) (upper sy) (upper sd0) (PStr i) =
           (if 0 < n then [make_level2_quote now message (upper sy) (upper sd0)] else [])"
proof -
  let ?q = "make_level2_quote now message (upper sy) (upper sd0)"
  have h: "handle_level2_message now message s = update_book s ?q"
    using assms(2-5) by (auto simp: handle_level2_message_def)
  have q: "side ?q = upper sd0" "mmid ?q = PStr i" "Level2Quote.size ?q = PInt n"
    "Level2Quote.symbol ?q = upper sy"
    using assms(6,7) by (simp_all add: make_level2_quote_def)
  have ok: "snd (update_book s ?q) = None"
    using update_book_succeeds [OF assms(1), of ?q i n] q assms(5) by simp
  show "snd (handle_level2_message now message s) = None"
    using h ok by simp
  show "entries_of (fst (handle_level2_message now message s)) (upper sy) (upper sd0) (PStr i) =
           (if 0 < n then [?q] else [])"
    unfolding h update_book_entries using ok q by simp
qed

text \<open>
  Claim C4. Whatever sequence of Level 2 events is delivered to a new manager, the book
  of every symbol has on every side at most one entry of a maker. In the state so
  reached, an event for a maker returns without an exception and leaves exactly the new
  entry of that maker on the side of the event when its size is positive (the new entry
  replaces the old one), and no entry of that maker when its size is 0 (or less).
\<close>

theorem level2_one_entry_per_maker:
  "length (entries_of (deliver_level2 new_manager events) symb sd (PStr maker)) \<le> 1 \<and>
   (dict_get message ''symbol'' = PStr sy \<and> sy \<noteq> [] \<and>
    dict_get_default message ''side'' (PStr []) = PStr sd0 \<and>
    upper sd0 \<in> {''BID'', ''ASK''} \<and>
    dict_get_default message ''mmid'' (PStr []) = PStr maker \<and>
    dict_get_default message ''size'' (PInt 0) = PInt n \<longrightarrow>
      snd (handle_level2_message now message (deliver_level2 new_manager events)) = None \<and>
      entries_of (fst (handle_level2_message now message (deliver_level2 new_manager events)))
          (upper sy) (upper sd0) (PStr maker) =
        (if 0 < n then [make_level2_quote now message (upper sy) (upper sd0)] else []))"
proof -
  have one: "length (entries_of (deliver_level2 new_manager events) symb sd (PStr maker)) \<le> 1"
    by (rule deliver_level2_at_most_one) (simp add: new_manager_entries)
  have ok: "book_ok (deliver_level2 new_manager events)"
    by (rule deliver_level2_ok) (rule new_manager_ok)
  show ?thesis
    using one handle_level2_typed [OF ok] by blast
qed

lemma upper_bid: "upper ''bid'' = ''BID''"
  by code_simp

lemma upper_xyz: "upper ''xyz'' = ''XYZ''"
  by code_simp

lemma upper_XYZ: "upper ''XYZ'' = ''XYZ''"
  by code_simp

lemma level2_run:
  "entries_of (deliver_level2 new_manager
       [(noon, level2_event ''xyz'' ''bid'' ''NSDQ'' 100),
        (noon, level2_event ''xyz'' ''bid'' ''ARCA'' 300),
        (noon, level2_event ''xyz'' ''bid'' ''NSDQ'' 200)]) ''XYZ'' ''BID'' (PStr ''NSDQ'') =
     [make_level2_quote noon (level2_event ''xyz'' ''bid'' ''NSDQ'' 200) ''XYZ'' ''BID'']"
  by code_simp

theorem level2_one_entry_per_maker_witness:
  "dict_get (level2_event ''xyz'' ''bid'' ''NSDQ'' 0) ''symbol'' = PStr ''xyz'' \<and>
   ''xyz'' \<noteq> [] \<and>
   dict_get_default (level2_event ''xyz'' ''bid'' ''NSDQ'' 0) ''side'' (PStr []) = PStr ''bid'' \<and>
   upper ''bid'' \<in> {''BID'', ''ASK''} \<and>
   dict_get_default (level2_event ''xyz'' ''bid'' ''NSDQ'' 0) ''mmid'' (PStr []) = PStr ''NSDQ'' \<and>
   dict_get_default (level2_event ''xyz'' ''bid'' ''NSDQ'' 0) ''size'' (PInt 0) = PInt 0 \<and>
   entries_of (deliver_level2 new_manager
       [(noon, level2_event ''xyz'' ''bid'' ''NSDQ'' 100),
        (noon, level2_event ''xyz'' ''bid'' ''ARCA'' 300),
        (noon, level2_event ''xyz'' ''bid'' ''NSDQ'' 200)]) ''XYZ'' ''BID'' (PStr ''NSDQ'') =
     [make_level2_quote noon (level2_event ''xyz'' ''bid'' ''NSDQ'' 200) ''XYZ'' ''BID''] \<and>
   entries_of (fst (handle_level2_message noon (level2_event ''xyz'' ''bid'' ''NSDQ'' 0)
       (deliver_level2 new_manager
         [(noon, level2_event ''xyz'' ''bid'' ''NSDQ'' 100),
          (noon, level2_event ''xyz'' ''bid'' ''ARCA'' 300),
          (noon, level2_event ''xyz'' ''bid'' ''NSDQ'' 200)])))
     (upper ''xyz'') (upper ''bid'') (PStr ''NSDQ'') = []"
proof -
  have hyp: "dict_get (level2_event ''xyz'' ''bid'' ''NSDQ'' 0) ''symbol'' = PStr ''xyz'' \<and>
   ''xyz'' \<noteq> [] \<and>
   dict_get_default (level2_event ''xyz'' ''bid'' ''NSDQ'' 0) ''side'' (PStr []) = PStr ''bid'' \<and>
   upper ''bid'' \<in> {''BID'', ''ASK''} \<and>
   dict_get_default (level2_event ''xyz'' ''bid'' ''NSDQ'' 0) ''mmid'' (PStr []) = PStr ''NSDQ'' \<and>
   dict_get_default (level2_event ''xyz'' ''bid'' ''NSDQ'' 0) ''size'' (PInt 0) = PInt 0"
    by (simp add: level2_event_def dict_get_def dict_get_default_def upper_bid)
  note inst = level2_one_entry_per_maker [of
      "[(noon, level2_event ''xyz'' ''bid'' ''NSDQ'' 100),
        (noon, level2_event ''xyz'' ''bid'' ''ARCA'' 300),
        (noon, level2_event ''xyz'' ''bid'' ''NSDQ'' 200)]" "''XYZ''" "''BID''" "''NSDQ''"
      "level2_event ''xyz'' ''bid'' ''NSDQ'' 0" "''xyz''" "''bid''" 0 noon]
  from inst [THEN conjunct2, THEN mp, OF hyp]
  have "entries_of (fst (handle_level2_message noon (level2_event ''xyz'' ''bid'' ''NSDQ'' 0)
       (deliver_level2 new_manager
         [(noon, level2_event ''xyz'' ''bid'' ''NSDQ'' 100),
          (noon, level2_event ''xyz'' ''bid'' ''ARCA'' 300),
          (noon, level2_event ''xyz'' ''bid'' ''NSDQ'' 200)])))
     (upper ''xyz'') (upper ''bid'') (PStr ''NSDQ'') = []"
    by simp
  then show ?thesis
    using hyp level2_run by simp
qed

section \<open>Properties of \<open>unsubscribe_quote\<close>\<close>

text \<open>
  Claim C9, as the code has it. \<open>unsubscribe_quote\<close> never raises, for any symbol, level
  and state, subscribed or not. It never changes the quote cache or the chart cache, and
  it leaves the books and tapes of all other symbols as they are. When the command was
  sent, unsubscribing at level 2 evicts the book of the symbol and keeps its tape,
  unsubscribing at the time-and-sales level evicts the tape and keeps the book; at level 1
  (the default), or when sending failed, neither is evicted. After a call whose command
  was sent, a second call changes nothing.
\<close>

theorem unsubscribe_quote_effect:
  "\<exists>s'. unsubscribe_quote send s symb level = Inr s' \<and>
     quotes s' = quotes s \<and> chart_data s' = chart_data s \<and>
     (\<forall>other. other \<noteq> upper symb \<longrightarrow>
        level2_data s' other = level2_data s other \<and>
        time_sales s' other = time_sales s other) \<and>
     (send (UNSUBSCRIBE @ '' '' @ upper symb @ '' '' @ level_value level) = None \<and>
      level = LEVEL2 \<longrightarrow>
        level2_data s' (upper symb) = None \<and> time_sales s' = time_sales s) \<and>
     (send (UNSUBSCRIBE @ '' '' @ upper symb @ '' '' @ level_value level) = None \<and>
      level = TIME_SALES \<longrightarrow>
        time_sales s' (upper symb) = None \<and> level2_data s' = level2_data s) \<and>
     (send (UNSUBSCRIBE @ '' '' @ upper symb @ '' '' @ level_value level) \<noteq> None \<or>
      level = LEVEL1 \<longrightarrow>
        level2_data s' = level2_data s \<and> time_sales s' = time_sales s) \<and>
     (send (UNSUBSCRIBE @ '' '' @ upper symb @ '' '' @ level_value level) = None \<longrightarrow>
        unsubscribe_quote send2 s' symb level = Inr s')"
proof (cases "send (UNSUBSCRIBE @ '' '' @ upper symb @ '' '' @ level_value level)")
  case (Some e)
  then show ?thesis
    by (simp add: unsubscribe_quote_def unsubscribe_body_def)
next
  case None
  show ?thesis
  proof (cases level)
    case LEVEL1
    then show ?thesis
      using None
      by (cases "send2 (UNSUBSCRIBE @ '' '' @ upper symb @ '' '' @ level_value LEVEL1)")
        (simp_all add: unsubscribe_quote_def unsubscribe_body_def)
  next
    case LEVEL2
    then show ?thesis
      using None
      by (cases "send2 (UNSUBSCRIBE @ '' '' @ upper symb @ '' '' @ level_value LEVEL2)")
        (simp_all add: unsubscribe_quote_def unsubscribe_body_def)
  next
    case TIME_SALES
    then show ?thesis
      using None
      by (cases "send2 (UNSUBSCRIBE @ '' '' @ upper symb @ '' '' @ level_value TIME_SALES)")
        (simp_all add: unsubscribe_quote_def unsubscribe_body_def)
  qed
qed

theorem unsubscribe_quote_effect_witness:
  "always_sent (UNSUBSCRIBE @ '' '' @ upper ''xyz'' @ '' '' @ level_value LEVEL2) = None \<and>
   ''ABC'' \<noteq> upper ''xyz'' \<and>
   (\<exists>s'. unsubscribe_quote always_sent cached_xyz ''xyz'' LEVEL2 = Inr s' \<and>
      quotes s' ''XYZ'' = Some (xyz_quote 40000) \<and>
      level2_data s' ''XYZ'' = None \<and>
      time_sales s' ''XYZ'' = Some [] \<and>
      level2_data s' ''ABC'' = level2_data cached_xyz ''ABC'')"
proof -
  have sent: "always_sent (UNSUBSCRIBE @ '' '' @ upper ''xyz'' @ '' '' @ level_value LEVEL2) = None"
    by (simp add: always_sent_def)
  have other: "''ABC'' \<noteq> upper ''xyz''"
    by (simp add: upper_xyz)
  from unsubscribe_quote_effect [of always_sent cached_xyz "''xyz''" LEVEL2 always_sent]
  obtain s' where "unsubscribe_quote always_sent cached_xyz ''xyz'' LEVEL2 = Inr s'"
    and "quotes s' = quotes cached_xyz"
    and "\<forall>other. other \<noteq> upper ''xyz'' \<longrightarrow>
        level2_data s' other = level2_data cached_xyz other \<and>
        time_sales s' other = time_sales cached_xyz other"
    and "level2_data s' (upper ''xyz'') = None \<and> time_sales s' = time_sales cached_xyz"
    using sent by auto
  then have "unsubscribe_quote always_sent cached_xyz ''xyz'' LEVEL2 = Inr s' \<and>
      quotes s' ''XYZ'' = Some (xyz_quote 40000) \<and>
      level2_data s' ''XYZ'' = None \<and>
      time_sales s' ''XYZ'' = Some [] \<and>
      level2_data s' ''ABC'' = level2_data cached_xyz ''ABC''"
    using other by (simp add: upper_xyz cached_xyz_def)
  then show ?thesis
    using sent other by blast
qed

text \<open>
  The claim as the specification states it fails: one call does not evict both the book
  and the tape. At the default level 1 the book of the symbol stays, and at level 2 its
  tape stays.
\<close>

theorem unsubscribe_quote_evicts_both_counterexample:
  "level2_data (projr (unsubscribe_quote always_sent cached_xyz ''XYZ'' LEVEL1)) ''XYZ'' \<noteq> None \<and>
   time_sales (projr (unsubscribe_quote always_sent cached_xyz ''XYZ'' LEVEL2)) ''XYZ'' \<noteq> None"
  by (simp add: unsubscribe_quote_def unsubscribe_body_def always_sent_def cached_xyz_def
      upper_XYZ)

section \<open>Properties of the message parser\<close>

text \<open>\<open>parse_timestamp\<close> returns for every string: \<open>strptime\<close> raises nothing but \<open>ValueError\<close>.\<close>

lemma strptime_raises_ValueError: "strptime s fmt = Inl e \<Longrightarrow> \<exists>m. e = ValueError m"
  by (auto simp: strptime_def Let_def split: list.splits if_splits prod.splits)

lemma try_formats_returns: "\<exists>v. try_formats s fmts = Inr v"
proof (induction fmts)
  case Nil
  then show ?case by simp
next
  case (Cons fmt fmts)
  show ?case
  proof (cases "strptime s fmt")
    case (Inl e)
    then obtain m where "e = ValueError m"
      using strptime_raises_ValueError by blast
    then show ?thesis
      using Inl Cons.IH by simp
  next
    case (Inr t)
    then show ?thesis by simp
  qed
qed

lemma parse_timestamp_returns: "\<exists>v. parse_timestamp s = Inr v"
  by (simp add: parse_timestamp_def try_formats_returns)

lemma with_token_in: "i < length parts \<Longrightarrow> with_token parts i f = f (parts ! i)"
  by (simp add: with_token_def py_index_def)

lemma field_value_isl: "isl (field_value parts f) = field_raises parts f"
proof (cases f)
  case (FTime i)
  then show ?thesis
    using parse_timestamp_returns [of "parts ! i"] by (auto simp: with_token_in)
next
  case (FTime2 i)
  then show ?thesis
    using parse_timestamp_returns [of "join (take 2 (drop i parts))"] by auto
next
  case (FInt i)
  then show ?thesis
    by (auto simp: int_value_def with_token_in split: sum.splits)
qed (auto simp: with_token_in decimal_value_def)

lemma dict_entries_ok:
  "\<not> raises fs parts \<Longrightarrow>
   dict_entries parts fs = Inr (map (\<lambda>(k, f). (k, projr (field_value parts f))) fs)"
proof (induction fs)
  case Nil
  then show ?case by simp
next
  case (Cons kf fs)
  obtain k f where kf: "kf = (k, f)"
    by (cases kf)
  from Cons.prems have "\<not> isl (field_value parts f)" and rest: "\<not> raises fs parts"
    by (simp_all add: raises_def kf field_value_isl)
  then obtain v where "field_value parts f = Inr v"
    by (cases "field_value parts f") auto
  then show ?case
    using Cons.IH [OF rest] kf by simp
qed

lemma dict_entries_raises:
  "raises fs parts \<Longrightarrow> \<exists>e. dict_entries parts fs = Inl e"
proof (induction fs)
  case Nil
  then show ?case by (simp add: raises_def)
next
  case (Cons kf fs)
  obtain k f where kf: "kf = (k, f)"
    by (cases kf)
  show ?case
  proof (cases "field_value parts f")
    case (Inl e)
    then show ?thesis using kf by simp
  next
    case (Inr v)
    then have "\<not> field_raises parts f"
      using field_value_isl [of parts f] by simp
    then have "raises fs parts"
      using Cons.prems kf by (simp add: raises_def)
    then show ?thesis
      using Cons.IH Inr kf by (auto split: sum.splits)
  qed
qed

lemma extractor_ok:
  "\<not> raises fs parts \<Longrightarrow>
   extractor t fs parts =
     Inr ((''type'', PStr t) # map (\<lambda>(k, f). (k, projr (field_value parts f))) fs)"
  by (simp add: extractor_def dict_entries_ok)

lemma extractor_raises:
  "raises fs parts \<Longrightarrow> \<exists>e. extractor t fs parts = Inr (error_record t parts e)"
  using dict_entries_raises [of fs parts] by (auto simp: extractor_def)

lemma extractor_returns: "\<exists>d. extractor t fs parts = Inr d"
  by (cases "raises fs parts") (auto simp: extractor_ok dest: extractor_raises)

lemma retype_extractor:
  "retype t' (extractor t fs parts) = extractor t' fs parts"
  by (auto simp: retype_def extractor_def error_record_def split: sum.splits)

lemma extractors_def_of:
  "(t, fs, parse) \<in> set extractors \<Longrightarrow> parse parts = extractor t fs parts"
  by (auto simp: extractors_def parse_order_message_def parse_order_action_message_def
      parse_position_message_def parse_quote_message_def parse_level2_message_def
      parse_time_sales_message_def parse_chart_message_def parse_buying_power_message_def
      parse_short_info_message_def parse_locate_info_message_def
      parse_locate_return_message_def parse_locate_order_message_def
      parse_locate_avail_message_def parse_limit_down_up_message_def
      parse_watch_trade_message_def parse_watch_order_message_def
      parse_watch_position_message_def retype_extractor)

lemma extractors_keys:
  "(t, fs, parse) \<in> set extractors \<Longrightarrow>
   distinct (map fst fs) \<and> ''type'' \<notin> fst ` set fs \<and> ''error'' \<notin> fst ` set fs \<and>
   ''raw'' \<notin> fst ` set fs"
  by (auto simp: extractors_def order_fields_def order_action_fields_def position_fields_def
      quote_fields_def level2_fields_def time_sales_fields_def chart_fields_def
      buying_power_fields_def short_info_fields_def locate_info_fields_def
      locate_return_fields_def locate_order_fields_def locate_avail_fields_def
      limit_down_up_fields_def watch_trade_fields_def)


lemma field_default:
  "\<not> field_raises parts f \<Longrightarrow> length parts < tokens_needed f \<Longrightarrow>
   field_value parts f = Inr (default_value f)"
proof (cases f)
  case (FProduct i j)
  assume "\<not> field_raises parts f" and short: "length parts < tokens_needed f"
  then obtain v where v: "field_value parts (FProduct i j) = Inr v"
    using FProduct by (cases "field_value parts (FProduct i j)") auto
  show ?thesis
  proof (cases "i < length parts")
    case False
    then show ?thesis
      using FProduct
      by (simp add: int_value_def decimal_value_def market_value_def with_token_in
          optional_decimal_def split: sum.splits option.splits)
  next
    case True
    then have "\<not> j < length parts"
      using short FProduct by simp
    then show ?thesis
      using FProduct v
      by (auto simp: decimal_value_def market_value_def split: sum.splits)
  qed
qed (auto simp: int_value_def decimal_value_def)


lemma record_lookup:
  assumes "distinct (map fst fs)" and "(k, f) \<in> set fs" and "''type'' \<notin> fst ` set fs"
  shows "map_of ((''type'', PStr t) # map (\<lambda>(k, f). (k, g f)) fs) k = Some (g f)"
proof -
  have "k \<noteq> ''type''"
    using assms(2,3) by force
  moreover have "map_of (map (\<lambda>(k, f). (k, g f)) fs) k = Some (g f)"
    using assms(1,2) by (simp add: map_of_map)
  ultimately show ?thesis
    by simp
qed

lemma record_no_key:
  assumes "x \<notin> fst ` set fs" and "x \<noteq> ''type''"
  shows "map_of ((''type'', PStr t) # map (\<lambda>(k, f). (k, g f)) fs) x = None"
proof -
  have "map_of (map (\<lambda>(k, f). (k, g f)) fs) x = None"
    using assms(1) by (simp add: map_of_map map_of_eq_None_iff)
  then show ?thesis
    using assms(2) by simp
qed

lemma extractors_ok:
  assumes "(t, fs, parse) \<in> set extractors" and "\<not> raises fs parts"
  shows "\<exists>d. parse parts = Inr d \<and> map_of d ''type'' = Some (PStr t) \<and>
           map_of d ''error'' = None \<and>
           (\<forall>(k, f) \<in> set fs. \<exists>v. field_value parts f = Inr v \<and> map_of d k = Some v)"
proof -
  let ?d = "(''type'', PStr t) # map (\<lambda>(k, f). (k, projr (field_value parts f))) fs"
  note keys = extractors_keys [OF assms(1)]
  have run: "parse parts = Inr ?d"
    using extractors_def_of [OF assms(1)] extractor_ok [OF assms(2)] by simp
  have no_error: "map_of ?d ''error'' = None"
    using keys by (intro record_no_key) auto
  have each: "\<exists>v. field_value parts f = Inr v \<and> map_of ?d k = Some v" if "(k, f) \<in> set fs" for k f
  proof -
    have "\<not> field_raises parts f"
      using assms(2) that by (auto simp: raises_def list_ex_iff)
    then obtain v where v: "field_value parts f = Inr v"
      using field_value_isl [of parts f] by (cases "field_value parts f") auto
    have "map_of ?d k = Some (projr (field_value parts f))"
      using keys that by (intro record_lookup) auto
    then show ?thesis
      using v by simp
  qed
  show ?thesis
    using run no_error each by (intro exI [of _ ?d]) auto
qed

lemma extractors_raise:
  assumes "(t, fs, parse) \<in> set extractors" and "raises fs parts"
  shows "\<exists>e. parse parts =
           Inr [(''type'', PStr t), (''error'', PStr (str_exn e)), (''raw'', PList parts)]"
  using extractors_def_of [OF assms(1)] extractor_raises [OF assms(2)]
  by (simp add: error_record_def)

lemma extractors_marked:
  assumes "(t, fs, parse) \<in> set extractors"
  shows "\<exists>d. parse parts = Inr d \<and> map_of d ''type'' = Some (PStr t) \<and>
           (map_of d ''error'' \<noteq> None \<longrightarrow> map_of d ''raw'' = Some (PList parts))"
proof (cases "raises fs parts")
  case True
  then show ?thesis
    using extractors_raise [OF assms True] by auto
next
  case False
  then show ?thesis
    using extractors_ok [OF assms False] by auto
qed

lemma marked_by_extractor:
  assumes "(t, fs, parse) \<in> set extractors"
  shows "marked parts (parse parts)"
  using extractors_marked [OF assms, of parts] by (auto simp: marked_def)

lemma marked_plain:
  "map_of d ''type'' = Some (PStr t) \<Longrightarrow> map_of d ''error'' = None \<Longrightarrow> marked parts (Inr d)"
  by (simp add: marked_def)

lemma marked_extractors:
  "(\<forall>ps. marked ps (parse_order_message ps)) \<and>
   (\<forall>ps. marked ps (parse_order_action_message ps)) \<and>
   (\<forall>ps. marked ps (parse_position_message ps)) \<and>
   (\<forall>ps. marked ps (parse_quote_message ps)) \<and>
   (\<forall>ps. marked ps (parse_level2_message ps)) \<and>
   (\<forall>ps. marked ps (parse_time_sales_message ps)) \<and>
   (\<forall>ps. marked ps (parse_chart_message ps)) \<and>
   (\<forall>ps. marked ps (parse_buying_power_message ps)) \<and>
   (\<forall>ps. marked ps (parse_short_info_message ps)) \<and>
   (\<forall>ps. marked ps (parse_locate_info_message ps)) \<and>
   (\<forall>ps. marked ps (parse_locate_return_message ps)) \<and>
   (\<forall>ps. marked ps (parse_locate_order_message ps)) \<and>
   (\<forall>ps. marked ps (parse_locate_avail_message ps)) \<and>
   (\<forall>ps. marked ps (parse_limit_down_up_message ps)) \<and>
   (\<forall>ps. marked ps (parse_watch_trade_message ps)) \<and>
   (\<forall>ps. marked ps (parse_watch_order_message ps)) \<and>
   (\<forall>ps. marked ps (parse_watch_position_message ps))"
proof -
  have "list_all (\<lambda>(t, fs, parse). \<forall>ps. marked ps (parse ps)) extractors"
    using marked_by_extractor by (auto simp: list_all_iff)
  then show ?thesis
    by (simp add: extractors_def)
qed

lemma parse_control_message_marked:
  "marked (drop 1 (split message)) (parse_control_message message)"
proof (cases "split message = []")
  case True
  then show ?thesis
    by (simp add: parse_control_message_def unknown_message_def marked_plain)
next
  case False
  then have first: "py_index (split message) 0 = Inr (split message ! 0)"
    by (simp add: py_index_def)
  show ?thesis
    unfolding parse_control_message_def Let_def first
    using False marked_extractors by (simp add: marked_plain)
qed

lemma parse_data_message_marked:
  "marked (drop 1 (split message)) (parse_data_message message)"
proof (cases "split message = []")
  case True
  then show ?thesis
    by (simp add: parse_data_message_def unknown_message_def marked_plain)
next
  case False
  then have first: "py_index (split message) 0 = Inr (split message ! 0)"
    by (simp add: py_index_def)
  show ?thesis
    unfolding parse_data_message_def Let_def first
    using False marked_extractors by (simp add: marked_plain)
qed

lemma parse_message_marked:
  "marked (drop 1 (split (strip raw))) (parse_message raw)"
  using parse_control_message_marked [of "strip raw"] parse_data_message_marked [of "strip raw"]
  by (simp add: parse_message_def Let_def unknown_message_def marked_plain)

lemma never_raising_layouts:
  "\<not> raises order_action_fields parts" "\<not> raises buying_power_fields parts"
  "\<not> raises locate_order_fields parts" "\<not> raises limit_down_up_fields parts"
  by (simp_all add: raises_def order_action_fields_def buying_power_fields_def
      locate_order_fields_def limit_down_up_fields_def)

text \<open>
  Claim C1, as the code has it. For every input string \<open>parse_message\<close> returns one
  dictionary with a type and never raises. A dictionary with an \<open>error\<close> entry holds the
  tokens of the line under \<open>raw\<close>; a line with none of the known prefixes gives the
  type \<open>UNKNOWN\<close> with the stripped text. An extractor returns the error-marked
  dictionary (type, message of the exception, tokens) exactly when the evaluation of an
  entry raises, that is when the token of an integer entry is there and is not an integer
  literal, or when the product of the market value raises; otherwise its dictionary has
  no \<open>error\<close> entry. A token list that is cut short and a decimal token that does not
  parse are not marked.
\<close>

theorem parse_message_never_raises:
  "(\<exists>d t. parse_message raw = Inr d \<and> map_of d ''type'' = Some (PStr t) \<and>
      (map_of d ''error'' \<noteq> None \<longrightarrow>
         map_of d ''raw'' = Some (PList (drop 1 (split (strip raw))))) \<and>
      (\<not> startswith (strip raw) ''%'' \<and> \<not> startswith (strip raw) ''$'' \<and>
       \<not> startswith (strip raw) ''ERROR'' \<and> \<not> startswith (strip raw) ''WARNING'' \<and>
       \<not> startswith (strip raw) ''INFO'' \<longrightarrow>
         d = [(''type'', PStr ''UNKNOWN''), (''raw'', PStr (strip raw))])) \<and>
   ((t', fs, parse) \<in> set extractors \<longrightarrow>
      (raises fs parts \<longrightarrow>
         (\<exists>e. parse parts =
            Inr [(''type'', PStr t'), (''error'', PStr (str_exn e)), (''raw'', PList parts)])) \<and>
      (\<not> raises fs parts \<longrightarrow>
         (\<exists>d. parse parts = Inr d \<and> map_of d ''type'' = Some (PStr t') \<and>
              map_of d ''error'' = None)))"
proof -
  obtain d t where run: "parse_message raw = Inr d" and type: "map_of d ''type'' = Some (PStr t)"
    and mark: "map_of d ''error'' \<noteq> None \<longrightarrow>
         map_of d ''raw'' = Some (PList (drop 1 (split (strip raw))))"
    using parse_message_marked [of raw] by (auto simp: marked_def)
  have unknown: "\<not> startswith (strip raw) ''%'' \<and> \<not> startswith (strip raw) ''$'' \<and>
       \<not> startswith (strip raw) ''ERROR'' \<and> \<not> startswith (strip raw) ''WARNING'' \<and>
       \<not> startswith (strip raw) ''INFO'' \<longrightarrow>
         d = [(''type'', PStr ''UNKNOWN''), (''raw'', PStr (strip raw))]"
    using run by (auto simp: parse_message_def Let_def unknown_message_def)
  have first: "\<exists>d t. parse_message raw = Inr d \<and> map_of d ''type'' = Some (PStr t) \<and>
      (map_of d ''error'' \<noteq> None \<longrightarrow>
         map_of d ''raw'' = Some (PList (drop 1 (split (strip raw))))) \<and>
      (\<not> startswith (strip raw) ''%'' \<and> \<not> startswith (strip raw) ''$'' \<and>
       \<not> startswith (strip raw) ''ERROR'' \<and> \<not> startswith (strip raw) ''WARNING'' \<and>
       \<not> startswith (strip raw) ''INFO'' \<longrightarrow>
         d = [(''type'', PStr ''UNKNOWN''), (''raw'', PStr (strip raw))])"
    using run type mark unknown by blast
  have second: "(t', fs, parse) \<in> set extractors \<longrightarrow>
      (raises fs parts \<longrightarrow>
         (\<exists>e. parse parts =
            Inr [(''type'', PStr t'), (''error'', PStr (str_exn e)), (''raw'', PList parts)])) \<and>
      (\<not> raises fs parts \<longrightarrow>
         (\<exists>d. parse parts = Inr d \<and> map_of d ''type'' = Some (PStr t') \<and>
              map_of d ''error'' = None))"
    using extractors_raise [of t' fs parse parts] extractors_ok [of t' fs parse parts]
    by blast
  show ?thesis
    using first second by (rule conjI)
qed

theorem parse_message_never_raises_witness:
  "(''ORDER'', order_fields, parse_order_message) \<in> set extractors \<and>
   raises order_fields [''1'', ''AAPL'', ''BUY'', ''abc''] \<and>
   (\<exists>e. parse_order_message [''1'', ''AAPL'', ''BUY'', ''abc''] =
      Inr [(''type'', PStr ''ORDER''), (''error'', PStr (str_exn e)),
           (''raw'', PList [''1'', ''AAPL'', ''BUY'', ''abc''])]) \<and>
   \<not> raises order_fields [''1''] \<and>
   (\<exists>d. parse_order_message [''1''] = Inr d \<and> map_of d ''error'' = None) \<and>
   \<not> startswith (strip ''hello'') ''%'' \<and> \<not> startswith (strip ''hello'') ''$'' \<and>
   \<not> startswith (strip ''hello'') ''ERROR'' \<and> \<not> startswith (strip ''hello'') ''WARNING'' \<and>
   \<not> startswith (strip ''hello'') ''INFO'' \<and>
   parse_message ''hello'' = Inr [(''type'', PStr ''UNKNOWN''), (''raw'', PStr (strip ''hello''))]"
proof -
  have m: "(''ORDER'', order_fields, parse_order_message) \<in> set extractors"
    by (simp add: extractors_def)
  have r: "raises order_fields [''1'', ''AAPL'', ''BUY'', ''abc'']"
    by code_simp
  have nr: "\<not> raises order_fields [''1'']"
    by code_simp
  have u: "\<not> startswith (strip ''hello'') ''%'' \<and> \<not> startswith (strip ''hello'') ''$'' \<and>
   \<not> startswith (strip ''hello'') ''ERROR'' \<and> \<not> startswith (strip ''hello'') ''WARNING'' \<and>
   \<not> startswith (strip ''hello'') ''INFO''"
    by code_simp
  note a = parse_message_never_raises [of "''hello''" "''ORDER''" order_fields
      parse_order_message "[''1'', ''AAPL'', ''BUY'', ''abc'']"]
  note b = parse_message_never_raises [of "''hello''" "''ORDER''" order_fields
      parse_order_message "[''1'']"]
  have c1: "\<exists>e. parse_order_message [''1'', ''AAPL'', ''BUY'', ''abc''] =
      Inr [(''type'', PStr ''ORDER''), (''error'', PStr (str_exn e)),
           (''raw'', PList [''1'', ''AAPL'', ''BUY'', ''abc''])]"
    using a m r by blast
  have c2: "\<exists>d. parse_order_message [''1''] = Inr d \<and> map_of d ''error'' = None"
    using b m nr by blast
  have c3: "parse_message ''hello'' = Inr [(''type'', PStr ''UNKNOWN''), (''raw'', PStr (strip ''hello''))]"
    using a u by blast
  show ?thesis
    using m r nr u c1 c2 c3 by blast
qed

text \<open>
  The claim as the specification states it fails: the truncated line \<open>%ORDER 1\<close> and
  the line \<open>$Quote AAPL x\<close>, whose bid does not parse, give dictionaries of the types
  \<open>ORDER\<close> and \<open>QUOTE\<close> without an \<open>error\<close> entry.
\<close>

theorem malformed_line_unmarked_counterexample:
  "parse_message ''%ORDER 1'' =
     Inr [(''type'', PStr ''ORDER''), (''order_id'', PStr ''1''), (''symbol'', PNone),
          (''side'', PNone), (''quantity'', PInt 0), (''price'', PNone),
          (''order_type'', PNone), (''status'', PNone), (''filled_qty'', PInt 0),
          (''avg_price'', PNone), (''remaining_qty'', PInt 0), (''timestamp'', PNone)] \<and>
   map_of (projr (parse_message ''%ORDER 1'')) ''error'' = None \<and>
   parse_message ''$Quote AAPL x'' =
     Inr [(''type'', PStr ''QUOTE''), (''symbol'', PStr ''AAPL''), (''bid'', PNone),
          (''ask'', PNone), (''last'', PNone), (''volume'', PInt 0),
          (''bid_size'', PInt 0), (''ask_size'', PInt 0), (''timestamp'', PNone)] \<and>
   map_of (projr (parse_message ''$Quote AAPL x'')) ''error'' = None"
  by code_simp




text \<open>
  Claim C3, as the code has it. For every extractor and every token list on which no
  entry raises (the tokens of the integer entries that are there are integer
  literals), the extractor returns the dictionary of its type without an \<open>error\<close> entry,
  and every entry that needs more tokens than the list has takes its default: 0 for an
  integer, \<open>False\<close> for a flag, \<open>Decimal("0")\<close> for the average cost, the current price
  and the market value of a position, \<open>None\<close> for all others. The extractors of order
  actions, buying power, locate orders and limit-down/up have no entry that can raise.
\<close>

theorem short_token_list:
  "((t, fs, parse) \<in> set extractors \<and> \<not> raises fs parts \<longrightarrow>
      (\<exists>d. parse parts = Inr d \<and> map_of d ''type'' = Some (PStr t) \<and>
         map_of d ''error'' = None \<and>
         (\<forall>(k, f) \<in> set fs. length parts < tokens_needed f \<longrightarrow> map_of d k = Some (default_value f)))) \<and>
   \<not> raises order_action_fields parts \<and> \<not> raises buying_power_fields parts \<and>
   \<not> raises locate_order_fields parts \<and> \<not> raises limit_down_up_fields parts"
proof -
  have "\<exists>d. parse parts = Inr d \<and> map_of d ''type'' = Some (PStr t) \<and>
         map_of d ''error'' = None \<and>
         (\<forall>(k, f) \<in> set fs. length parts < tokens_needed f \<longrightarrow> map_of d k = Some (default_value f))"
    if ex: "(t, fs, parse) \<in> set extractors" and ok: "\<not> raises fs parts"
  proof -
    from extractors_ok [OF ex ok] obtain d where d: "parse parts = Inr d"
      "map_of d ''type'' = Some (PStr t)" "map_of d ''error'' = None"
      and each: "\<forall>(k, f) \<in> set fs. \<exists>v. field_value parts f = Inr v \<and> map_of d k = Some v"
      by blast
    have "map_of d k = Some (default_value f)"
      if "(k, f) \<in> set fs" and "length parts < tokens_needed f" for k f
    proof -
      have "\<not> field_raises parts f"
        using ok that(1) by (auto simp: raises_def list_ex_iff)
      then have "field_value parts f = Inr (default_value f)"
        using that(2) by (rule field_default)
      then show ?thesis
        using each that(1) by fastforce
    qed
    then show ?thesis
      using d by blast
  qed
  then show ?thesis
    using never_raising_layouts by blast
qed

theorem short_token_list_witness:
  "(''QUOTE'', quote_fields, parse_quote_message) \<in> set extractors \<and>
   \<not> raises quote_fields [''AAPL'', ''150.25''] \<and>
   (''volume'', FInt 4) \<in> set quote_fields \<and>
   length [''AAPL'', ''150.25''] < tokens_needed (FInt 4) \<and>
   (\<exists>d. parse_quote_message [''AAPL'', ''150.25''] = Inr d \<and> map_of d ''error'' = None \<and>
      map_of d ''volume'' = Some (PInt 0))"
proof -
  have m: "(''QUOTE'', quote_fields, parse_quote_message) \<in> set extractors"
    by (simp add: extractors_def)
  have nr: "\<not> raises quote_fields [''AAPL'', ''150.25'']"
    by code_simp
  have k: "(''volume'', FInt 4) \<in> set quote_fields"
    by (simp add: quote_fields_def)
  have l: "length [''AAPL'', ''150.25''] < tokens_needed (FInt 4)"
    by simp
  note a = short_token_list [of "''QUOTE''" quote_fields parse_quote_message
      "[''AAPL'', ''150.25'']"]
  from a m nr obtain d where d: "parse_quote_message [''AAPL'', ''150.25''] = Inr d"
    "map_of d ''error'' = None"
    "\<forall>(k, f) \<in> set quote_fields.
        length [''AAPL'', ''150.25''] < tokens_needed f \<longrightarrow> map_of d k = Some (default_value f)"
    by blast
  from d(3) k l have "map_of d ''volume'' = Some (PInt 0)"
    by fastforce
  then show ?thesis
    using m nr k l d by blast
qed

text \<open>
  The claim as the specification states it fails: a quote of five tokens, fewer than
  the nine of a full quote, whose volume is \<open>abc\<close> gives the error-marked dictionary.
\<close>

theorem short_list_error_marked_counterexample:
  "parse_quote_message [''AAPL'', ''150.25'', ''150.30'', ''150.27'', ''abc''] =
     Inr [(''type'', PStr ''QUOTE''),
          (''error'', PStr (''invalid literal for int() with base 10: '' @ quoted ''abc'')),
          (''raw'', PList [''AAPL'', ''150.25'', ''150.30'', ''150.27'', ''abc''])]"
  by code_simp

end
